theory Spec2Isabelle
  imports Complex_Main
begin

section \<open>RealtimeVoiceClient: the data model\<close>

text \<open>
  The development embeds \<^verbatim>\<open>client/src/services/RealtimeVoiceClient.ts\<close>.
  The class is a state machine over browser objects (a peer connection, a data channel,
  media tracks, an audio element, an audio context). The fields of the class and the
  browser objects they refer to live in one record; a browser object is a cell of a store
  indexed by an object identity, so that two references to one track (the local stream's
  and the sender's) see one state. Callbacks of the configuration are recorded, in
  order, in the list \<open>callbacks\<close>; console output in \<open>console\<close>.
\<close>

subsection \<open>JavaScript values and exceptions\<close>

text \<open>A parsed JSON text, or any value of type \<^verbatim>\<open>any\<close> the code reads a property of.\<close>

datatype jsval =
    JUndefined
  | JNull
  | JBool bool
  | JNum rat
  | JStr string
  | JArr "jsval list"
  | JObj "(string \<times> jsval) list"

text \<open>What a \<^verbatim>\<open>throw\<close> or a rejected promise carries.\<close>

datatype js_error =
    JSError string
  | JSTypeError string
  | JSSyntaxError string
  | JSDOMException string
  | JSEvent string

text \<open>
  The builtins of the runtime the code calls on values of type \<^verbatim>\<open>any\<close>. They are
  parameters of the model: every theorem holds for whatever they compute.
  \<open>JSON_parse v\<close> is \<open>Inl e\<close> where \<^verbatim>\<open>JSON.parse(v)\<close> throws \<open>e\<close>.
\<close>

record runtime =
  JSON_parse :: "jsval \<Rightarrow> js_error + jsval"
  JSON_stringify :: "jsval \<Rightarrow> jsval"
  ToString :: "jsval \<Rightarrow> string"

text \<open>Truthiness, as \<^verbatim>\<open>if (v)\<close>, \<^verbatim>\<open>a && b\<close> and \<^verbatim>\<open>a || b\<close> test it.\<close>

fun truthy :: "jsval \<Rightarrow> bool" where
  "truthy JUndefined = False"
| "truthy JNull = False"
| "truthy (JBool b) = b"
| "truthy (JNum n) = (n \<noteq> 0)"
| "truthy (JStr s) = (s \<noteq> [])"
| "truthy (JArr _) = True"
| "truthy (JObj _) = True"

definition js_or :: "jsval \<Rightarrow> jsval \<Rightarrow> jsval" where
  "js_or a b = (if truthy a then a else b)"

text \<open>
  Property read \<^verbatim>\<open>v.k\<close>, for the property names this code reads (none of them is
  a builtin property of a string, number, boolean or array): a \<^verbatim>\<open>TypeError\<close> on
  \<^verbatim>\<open>null\<close> and \<^verbatim>\<open>undefined\<close>, the member of an object, \<^verbatim>\<open>undefined\<close> otherwise.
\<close>

fun get_prop :: "jsval \<Rightarrow> string \<Rightarrow> js_error + jsval" where
  "get_prop JUndefined k = Inl (JSTypeError (''Cannot read properties of undefined (reading '' @ k @ '')''))"
| "get_prop JNull k = Inl (JSTypeError (''Cannot read properties of null (reading '' @ k @ '')''))"
| "get_prop (JObj kvs) k = Inr (case map_of kvs k of None \<Rightarrow> JUndefined | Some v \<Rightarrow> v)"
| "get_prop _ k = Inr JUndefined"

text \<open>Optional chaining \<^verbatim>\<open>v?.k\<close>, and \<^verbatim>\<open>v.k\<close> where \<open>v\<close> is known to be truthy.\<close>

fun opt_prop :: "jsval \<Rightarrow> string \<Rightarrow> jsval" where
  "opt_prop (JObj kvs) k = (case map_of kvs k of None \<Rightarrow> JUndefined | Some v \<Rightarrow> v)"
| "opt_prop _ k = JUndefined"

subsection \<open>Browser objects\<close>

datatype ConnectionState = Disconnected | Connecting | Connected | Error

datatype role = User | Assistant

datatype track_kind = Audio | Video

record MediaStreamTrack =
  kind :: track_kind
  enabled :: bool
  ended :: bool

text \<open>A \<^verbatim>\<open>MediaStream\<close> is the list of its tracks (their identities).\<close>

type_synonym MediaStream = "nat list"

datatype ice_state =
  IceNew | IceChecking | IceConnected | IceCompleted | IceFailed | IceDisconnected | IceClosed

record RTCPeerConnection =
  pc_closed :: bool
  senders :: "nat option list"
  iceConnectionState :: ice_state
  pc_channels :: "nat list"
  localDescription :: "jsval option"
  remoteDescription :: "jsval option"

datatype channel_state = ChConnecting | ChOpen | ChClosing | ChClosed

record RTCDataChannel =
  label :: string
  readyState :: channel_state
  sent :: "jsval list"

record HTMLAudioElement =
  autoplay :: bool
  paused :: bool
  muted :: bool
  srcObject :: "MediaStream option"
  srcObject_assigned :: "MediaStream option list"

record AnalyserNode =
  fftSize :: nat
  analysed :: MediaStream

datatype callback =
    OnConnectionStateChange ConnectionState
  | OnTranscript jsval role
  | OnTranscriptChunk jsval
  | OnUserTranscript jsval
  | OnResponseStart
  | OnError js_error
  | OnToolCall jsval jsval jsval
  | OnMicrophoneLevel
  | OnMicrophoneSpectrum
  | OnPlaybackLevel
  | OnPlaybackSpectrum

datatype console_arg = Txt string | Val jsval | Exn js_error

datatype console_entry =
    ConsoleLog "console_arg list"
  | ConsoleWarn "console_arg list"
  | ConsoleError "console_arg list"

record Request =
  url :: string
  http_method :: string
  headers :: "(string \<times> string) list"
  credentials :: "string option"
  body :: jsval

record Response =
  ok :: bool
  status :: nat
  json_body :: "js_error + jsval"
  text_body :: "js_error + string"

subsection \<open>The configuration and the client\<close>

text \<open>
  \<^verbatim>\<open>RealtimeVoiceConfig\<close>. A callback field says whether the callback is configured;
  what a configured callback is called with is recorded in \<open>callbacks\<close>.
\<close>

record RealtimeVoiceConfig =
  voice :: string
  language :: string
  systemPrompt :: string
  initialInstructions :: "string option"
  authToken :: "string option"
  tools :: "jsval list"
  onConnectionStateChange :: bool
  onTranscript :: bool
  onTranscriptChunk :: bool
  onUserTranscript :: bool
  onResponseStart :: bool
  onError :: bool
  onToolCall :: bool
  onMicrophoneLevel :: bool
  onMicrophoneSpectrum :: bool
  onPlaybackLevel :: bool
  onPlaybackSpectrum :: bool

text \<open>
  The fields of \<^verbatim>\<open>class RealtimeVoiceClient\<close> (a reference is the identity of the
  object, \<open>None\<close> is \<^verbatim>\<open>null\<close>), then the browser: the object stores with the next
  free identity of each, the animation frames requested and not cancelled, the pending
  timeouts, the requests sent, the callbacks called and the console.
\<close>

record client =
  peerConnection :: "nat option"
  dataChannel :: "nat option"
  localStream :: "MediaStream option"
  audioElement :: "nat option"
  connectionState :: ConnectionState
  microphoneMuted :: bool
  playbackMuted :: bool
  audioContext :: "nat option"
  inputAnalyser :: "AnalyserNode option"
  outputAnalyser :: "AnalyserNode option"
  animationFrameId :: "nat option"
  config :: RealtimeVoiceConfig
  conversationId :: "string option"
  tracks :: "nat \<Rightarrow> MediaStreamTrack"
  nextTrack :: nat
  connections :: "nat \<Rightarrow> RTCPeerConnection"
  nextConnection :: nat
  channels :: "nat \<Rightarrow> RTCDataChannel"
  nextChannel :: nat
  audioElements :: "nat \<Rightarrow> HTMLAudioElement"
  nextAudioElement :: nat
  contextClosed :: "nat \<Rightarrow> bool"
  nextContext :: nat
  frameHandle :: nat
  frames :: "nat list"
  timeouts :: "nat list"
  requests :: "Request list"
  callbacks :: "callback list"
  console :: "console_entry list"

section \<open>The operations of the browser objects\<close>

text \<open>\<^verbatim>\<open>track.stop()\<close> and \<^verbatim>\<open>track.enabled = b\<close>.\<close>

definition track_stop :: "nat \<Rightarrow> client \<Rightarrow> client" where
  "track_stop t s = s\<lparr>tracks := (tracks s)(t := (tracks s t)\<lparr>ended := True\<rparr>)\<rparr>"

definition track_set_enabled :: "bool \<Rightarrow> nat \<Rightarrow> client \<Rightarrow> client" where
  "track_set_enabled b t s = s\<lparr>tracks := (tracks s)(t := (tracks s t)\<lparr>enabled := b\<rparr>)\<rparr>"

text \<open>\<^verbatim>\<open>stream.getAudioTracks()\<close>.\<close>

definition getAudioTracks :: "MediaStream \<Rightarrow> client \<Rightarrow> nat list" where
  "getAudioTracks st s = filter (\<lambda>t. kind (tracks s t) = Audio) st"

text \<open>
  \<^verbatim>\<open>channel.close()\<close> starts the closing procedure unless the channel is closing or
  closed; \<^verbatim>\<open>channel.send(data)\<close> is called by the code on an open channel only.
\<close>

definition channel_close :: "nat \<Rightarrow> client \<Rightarrow> client" where
  "channel_close c s =
     (if readyState (channels s c) = ChClosing \<or> readyState (channels s c) = ChClosed then s
      else s\<lparr>channels := (channels s)(c := (channels s c)\<lparr>readyState := ChClosing\<rparr>)\<rparr>)"

definition channel_send :: "nat \<Rightarrow> jsval \<Rightarrow> client \<Rightarrow> client" where
  "channel_send c d s =
     s\<lparr>channels := (channels s)(c := (channels s c)\<lparr>sent := sent (channels s c) @ [d]\<rparr>)\<rparr>"

text \<open>
  \<^verbatim>\<open>pc.close()\<close>: the connection is closed, its ICE state is \<^verbatim>\<open>closed\<close>, and each of
  its data channels is closed at once. No event fires.
\<close>

definition channel_closed_by_pc :: "nat \<Rightarrow> client \<Rightarrow> client" where
  "channel_closed_by_pc c s =
     s\<lparr>channels := (channels s)(c := (channels s c)\<lparr>readyState := ChClosed\<rparr>)\<rparr>"

definition pc_close :: "nat \<Rightarrow> client \<Rightarrow> client" where
  "pc_close p s =
     (if pc_closed (connections s p) then s
      else fold channel_closed_by_pc (pc_channels (connections s p))
             (s\<lparr>connections := (connections s)(p := (connections s p)
                  \<lparr>pc_closed := True, iceConnectionState := IceClosed\<rparr>)\<rparr>))"

text \<open>\<^verbatim>\<open>cancelAnimationFrame(h)\<close> and \<^verbatim>\<open>requestAnimationFrame(analyze)\<close>: a handle is a
  positive integer, one more than the last.\<close>

definition cancelAnimationFrame :: "nat \<Rightarrow> client \<Rightarrow> client" where
  "cancelAnimationFrame h s = s\<lparr>frames := removeAll h (frames s)\<rparr>"

definition requestAnimationFrame :: "client \<Rightarrow> nat \<times> client" where
  "requestAnimationFrame s =
     (Suc (frameHandle s), s\<lparr>frameHandle := Suc (frameHandle s), frames := frames s @ [Suc (frameHandle s)]\<rparr>)"

text \<open>\<^verbatim>\<open>audioContext.close()\<close>.\<close>

definition context_close :: "nat \<Rightarrow> client \<Rightarrow> client" where
  "context_close a s = s\<lparr>contextClosed := (contextClosed s)(a := True)\<rparr>"

text \<open>\<^verbatim>\<open>audio.pause()\<close>, \<^verbatim>\<open>audio.srcObject = v\<close> and \<^verbatim>\<open>audio.muted = b\<close>. Each
  assignment of \<^verbatim>\<open>srcObject\<close> is recorded: it restarts the element's loading.\<close>

definition audio_pause :: "nat \<Rightarrow> client \<Rightarrow> client" where
  "audio_pause a s = s\<lparr>audioElements := (audioElements s)(a := (audioElements s a)\<lparr>paused := True\<rparr>)\<rparr>"

definition audio_set_srcObject :: "nat \<Rightarrow> MediaStream option \<Rightarrow> client \<Rightarrow> client" where
  "audio_set_srcObject a v s =
     s\<lparr>audioElements := (audioElements s)(a := (audioElements s a)
        \<lparr>srcObject := v, srcObject_assigned := srcObject_assigned (audioElements s a) @ [v]\<rparr>)\<rparr>"

definition audio_set_muted :: "nat \<Rightarrow> bool \<Rightarrow> client \<Rightarrow> client" where
  "audio_set_muted a b s = s\<lparr>audioElements := (audioElements s)(a := (audioElements s a)\<lparr>muted := b\<rparr>)\<rparr>"

section \<open>The private methods of the state\<close>

text \<open>\<^verbatim>\<open>updateConnectionState(state)\<close>.\<close>

definition updateConnectionState :: "ConnectionState \<Rightarrow> client \<Rightarrow> client" where
  "updateConnectionState st s =
     (let s1 = s\<lparr>connectionState := st\<rparr>
      in if onConnectionStateChange (config s1)
         then s1\<lparr>callbacks := callbacks s1 @ [OnConnectionStateChange st]\<rparr>
         else s1)"

text \<open>\<^verbatim>\<open>handleError(error)\<close>.\<close>

definition handleError :: "js_error \<Rightarrow> client \<Rightarrow> client" where
  "handleError e s =
     (let s1 = s\<lparr>console := console s @ [ConsoleError [Txt ''RealtimeVoiceClient error:'', Exn e]]\<rparr>
      in if onError (config s1)
         then s1\<lparr>callbacks := callbacks s1 @ [OnError e]\<rparr>
         else s1)"

section \<open>disconnect\<close>

text \<open>Stop audio analysis: \<^verbatim>\<open>if (this.animationFrameId)\<close> is false for \<^verbatim>\<open>null\<close> and for 0.\<close>

definition stop_audio_analysis :: "client \<Rightarrow> client" where
  "stop_audio_analysis s =
     (case animationFrameId s of
        None \<Rightarrow> s
      | Some h \<Rightarrow> if h \<noteq> 0 then (cancelAnimationFrame h s)\<lparr>animationFrameId := None\<rparr> else s)"

text \<open>Close audio context.\<close>

definition close_audio_context :: "client \<Rightarrow> client" where
  "close_audio_context s =
     (case audioContext s of
        None \<Rightarrow> s
      | Some a \<Rightarrow> (context_close a s)\<lparr>audioContext := None, inputAnalyser := None, outputAnalyser := None\<rparr>)"

text \<open>Stop microphone tracks.\<close>

definition stop_microphone_tracks :: "client \<Rightarrow> client" where
  "stop_microphone_tracks s =
     (case localStream s of
        None \<Rightarrow> s
      | Some st \<Rightarrow> (fold track_stop st s)\<lparr>localStream := None\<rparr>)"

text \<open>Stop sender tracks, close the peer connection.\<close>

definition sender_stop :: "nat option \<Rightarrow> client \<Rightarrow> client" where
  "sender_stop sender s = (case sender of None \<Rightarrow> s | Some t \<Rightarrow> track_stop t s)"

definition stop_sender_tracks :: "client \<Rightarrow> client" where
  "stop_sender_tracks s =
     (case peerConnection s of
        None \<Rightarrow> s
      | Some p \<Rightarrow> (pc_close p (fold sender_stop (senders (connections s p)) s))\<lparr>peerConnection := None\<rparr>)"

text \<open>Clean up audio element.\<close>

definition clean_up_audio_element :: "client \<Rightarrow> client" where
  "clean_up_audio_element s =
     (case audioElement s of
        None \<Rightarrow> s
      | Some a \<Rightarrow> (audio_set_srcObject a None (audio_pause a s))\<lparr>audioElement := None\<rparr>)"

text \<open>Close data channel.\<close>

definition close_data_channel :: "client \<Rightarrow> client" where
  "close_data_channel s =
     (case dataChannel s of
        None \<Rightarrow> s
      | Some c \<Rightarrow> (channel_close c s)\<lparr>dataChannel := None\<rparr>)"

text \<open>\<^verbatim>\<open>disconnect()\<close>: the six blocks in the order of the source, then the state.\<close>

definition disconnect :: "client \<Rightarrow> client" where
  "disconnect s =
     updateConnectionState Disconnected
       (close_data_channel
         (clean_up_audio_element
           (stop_sender_tracks
             (stop_microphone_tracks
               (close_audio_context
                 (stop_audio_analysis s))))))"


section \<open>Sending\<close>

text \<open>\<^verbatim>\<open>sendJson(data)\<close>: nothing is sent unless the channel is open.\<close>

definition sendJson :: "runtime \<Rightarrow> jsval \<Rightarrow> client \<Rightarrow> client" where
  "sendJson rt data s =
     (case dataChannel s of
        None \<Rightarrow> s
      | Some c \<Rightarrow>
          if readyState (channels s c) = ChOpen then channel_send c (JSON_stringify rt data) s
          else s)"

text \<open>The test \<^verbatim>\<open>!this.dataChannel || this.dataChannel.readyState !== 'open'\<close>.\<close>

definition channel_not_open :: "client \<Rightarrow> bool" where
  "channel_not_open s =
     (case dataChannel s of None \<Rightarrow> True | Some c \<Rightarrow> readyState (channels s c) \<noteq> ChOpen)"

text \<open>The messages the client builds.\<close>

definition user_message :: "string \<Rightarrow> jsval" where
  "user_message text =
     JObj [(''type'', JStr ''conversation.item.create''),
           (''item'', JObj [(''type'', JStr ''message''),
                            (''role'', JStr ''user''),
                            (''content'', JArr [JObj [(''type'', JStr ''input_text''),
                                                      (''text'', JStr text)]])])]"

definition response_create :: jsval where
  "response_create = JObj [(''type'', JStr ''response.create'')]"

definition tool_result_message :: "runtime \<Rightarrow> string \<Rightarrow> jsval \<Rightarrow> jsval" where
  "tool_result_message rt callId result =
     JObj [(''type'', JStr ''conversation.item.create''),
           (''item'', JObj [(''type'', JStr ''function_call_output''),
                            (''call_id'', JStr callId),
                            (''output'', JSON_stringify rt result)])]"

definition greeting_message :: "string option \<Rightarrow> jsval" where
  "greeting_message instructions =
     JObj [(''type'', JStr ''response.create''),
           (''response'', JObj [(''instructions'',
               (case instructions of None \<Rightarrow> JNull | Some i \<Rightarrow> JStr i))])]"

text \<open>
  \<^verbatim>\<open>sendText(text)\<close> and \<^verbatim>\<open>sendToolResult(callId, result)\<close>. The first component of the
  result is the exception thrown, if any; the second is the state the call leaves.
\<close>

definition sendText :: "runtime \<Rightarrow> string \<Rightarrow> client \<Rightarrow> js_error option \<times> client" where
  "sendText rt text s =
     (if channel_not_open s then (Some (JSError ''Data channel not open''), s)
      else
        let s1 = sendJson rt (user_message text) s;
            s2 = sendJson rt response_create s1
        in (None,
            if onTranscript (config s2)
            then s2\<lparr>callbacks := callbacks s2 @ [OnTranscript (JStr text) User]\<rparr>
            else s2))"

definition sendToolResult :: "runtime \<Rightarrow> string \<Rightarrow> jsval \<Rightarrow> client \<Rightarrow> js_error option \<times> client" where
  "sendToolResult rt callId result s =
     (if channel_not_open s then (Some (JSError ''Data channel not open''), s)
      else
        (case dataChannel s of
           None \<Rightarrow> (Some (JSError ''Data channel not open''), s)
         | Some c \<Rightarrow>
             (None,
              channel_send c (JSON_stringify rt response_create)
                (channel_send c (JSON_stringify rt (tool_result_message rt callId result)) s))))"

section \<open>The inbound messages\<close>

text \<open>\<^verbatim>\<open>stopPlayback()\<close>.\<close>

definition stopPlayback :: "client \<Rightarrow> client" where
  "stopPlayback s =
     (case audioElement s of
        None \<Rightarrow> s
      | Some a \<Rightarrow>
          let s1 = audio_pause a s
          in (case srcObject (audioElements s1 a) of
                None \<Rightarrow> s1
              | Some src \<Rightarrow> audio_set_srcObject a (Some src) (audio_set_srcObject a None s1)))"

definition call :: "callback \<Rightarrow> client \<Rightarrow> client" where
  "call cb s = s\<lparr>callbacks := callbacks s @ [cb]\<rparr>"

text \<open>The cases of the \<^verbatim>\<open>switch\<close> of \<^verbatim>\<open>handleRealtimeMessage\<close>, one definition each.\<close>

definition session_created :: "client \<Rightarrow> client" where
  "session_created s =
     (if connectionState s = Connecting then updateConnectionState Connected s else s)"

definition conversation_item_created :: "jsval \<Rightarrow> client \<Rightarrow> client" where
  "conversation_item_created message s =
     (let item = opt_prop message ''item'';
          s1 = (if truthy item \<and> opt_prop item ''role'' = JStr ''assistant''
                   \<and> onResponseStart (config s)
                then call OnResponseStart s else s);
          transcript = opt_prop (opt_prop item ''formatted'') ''transcript''
      in if truthy item \<and> opt_prop item ''role'' = JStr ''user'' \<and> truthy transcript
         then
           (let s2 = (if onUserTranscript (config s1) then call (OnUserTranscript transcript) s1 else s1)
            in if onTranscript (config s2) then call (OnTranscript transcript User) s2 else s2)
         else s1)"

definition input_audio_transcription_completed :: "jsval \<Rightarrow> client \<Rightarrow> client" where
  "input_audio_transcription_completed message s =
     (let transcript = opt_prop message ''transcript''
      in if truthy transcript
         then
           (let s1 = (if onUserTranscript (config s) then call (OnUserTranscript transcript) s else s)
            in if onTranscript (config s1) then call (OnTranscript transcript User) s1 else s1)
         else s)"

definition audio_transcript_delta :: "jsval \<Rightarrow> client \<Rightarrow> client" where
  "audio_transcript_delta message s =
     (if onTranscriptChunk (config s) \<and> truthy (opt_prop message ''delta'')
      then call (OnTranscriptChunk (opt_prop message ''delta'')) s else s)"

definition audio_transcript_done :: "jsval \<Rightarrow> client \<Rightarrow> client" where
  "audio_transcript_done message s =
     (if onTranscript (config s) \<and> truthy (opt_prop message ''transcript'')
      then call (OnTranscript (opt_prop message ''transcript'') Assistant) s else s)"

definition function_call_arguments_done :: "runtime \<Rightarrow> jsval \<Rightarrow> client \<Rightarrow> client" where
  "function_call_arguments_done rt message s =
     (if onToolCall (config s) \<and> truthy (opt_prop message ''call_id'')
         \<and> truthy (opt_prop message ''name'')
      then
        (if truthy (opt_prop message ''arguments'')
         then
           (case JSON_parse rt (opt_prop message ''arguments'') of
              Inr args \<Rightarrow>
                call (OnToolCall (opt_prop message ''call_id'') (opt_prop message ''name'') args) s
            | Inl e \<Rightarrow>
                call (OnToolCall (opt_prop message ''call_id'') (opt_prop message ''name'') (JObj []))
                  (s\<lparr>console := console s @
                       [ConsoleError [Txt ''Failed to parse tool arguments:'', Exn e]]\<rparr>))
         else call (OnToolCall (opt_prop message ''call_id'') (opt_prop message ''name'') (JObj [])) s)
      else s)"

definition error_message :: "runtime \<Rightarrow> jsval \<Rightarrow> client \<Rightarrow> client" where
  "error_message rt message s =
     handleError
       (JSError (ToString rt (js_or (opt_prop (opt_prop message ''error'') ''message'')
                                    (JStr ''Unknown error''))))
       s"

text \<open>
  \<^verbatim>\<open>handleRealtimeMessage(message)\<close>. Reading \<^verbatim>\<open>message.type\<close> throws when the
  message is \<^verbatim>\<open>null\<close>; the \<^verbatim>\<open>switch\<close> compares with \<^verbatim>\<open>===\<close>, and a type that matches
  no case falls through it.
\<close>

definition handleRealtimeMessage :: "runtime \<Rightarrow> jsval \<Rightarrow> client \<Rightarrow> js_error option \<times> client" where
  "handleRealtimeMessage rt message s =
     (case get_prop message ''type'' of
        Inl e \<Rightarrow> (Some e, s)
      | Inr ty \<Rightarrow>
          (None,
           if ty = JStr ''session.created'' \<or> ty = JStr ''session.updated''
             then session_created s
           else if ty = JStr ''conversation.item.created''
             then conversation_item_created message s
           else if ty = JStr ''conversation.item.input_audio_transcription.completed''
             then input_audio_transcription_completed message s
           else if ty = JStr ''response.audio_transcript.delta''
                   \<or> ty = JStr ''response.output_audio_transcript.delta''
             then audio_transcript_delta message s
           else if ty = JStr ''response.audio_transcript.done''
                   \<or> ty = JStr ''response.output_audio_transcript.done''
             then audio_transcript_done message s
           else if ty = JStr ''response.function_call_arguments.done''
             then function_call_arguments_done rt message s
           else if ty = JStr ''input_audio_buffer.speech_started'' then s
           else if ty = JStr ''input_audio_buffer.speech_stopped'' then s
           else if ty = JStr ''response.cancelled'' \<or> ty = JStr ''response.interrupted''
             then stopPlayback s
           else if ty = JStr ''error'' then error_message rt message s
           else s))"

text \<open>The type strings the \<^verbatim>\<open>switch\<close> has a case for.\<close>

definition vocabulary :: "string list" where
  "vocabulary =
     [''session.created'', ''session.updated'', ''conversation.item.created'',
      ''conversation.item.input_audio_transcription.completed'',
      ''response.audio_transcript.delta'', ''response.output_audio_transcript.delta'',
      ''response.audio_transcript.done'', ''response.output_audio_transcript.done'',
      ''response.function_call_arguments.done'',
      ''input_audio_buffer.speech_started'', ''input_audio_buffer.speech_stopped'',
      ''response.cancelled'', ''response.interrupted'', ''error'']"

section \<open>The handlers of the data channel and of the peer connection\<close>

text \<open>\<^verbatim>\<open>dataChannel.onmessage\<close>, called with \<^verbatim>\<open>event.data\<close>.\<close>

definition onmessage :: "runtime \<Rightarrow> jsval \<Rightarrow> client \<Rightarrow> client" where
  "onmessage rt data s =
     (case JSON_parse rt data of
        Inl e \<Rightarrow> s\<lparr>console := console s @ [ConsoleError [Txt ''Failed to parse message:'', Exn e]]\<rparr>
      | Inr message \<Rightarrow>
          (case handleRealtimeMessage rt message s of
             (None, s1) \<Rightarrow> s1
           | (Some e, s1) \<Rightarrow>
               s1\<lparr>console := console s1 @ [ConsoleError [Txt ''Failed to parse message:'', Exn e]]\<rparr>))"

text \<open>\<^verbatim>\<open>dataChannel.onopen\<close> sets the timeout of the greeting; \<open>greeting_timeout\<close> is what
  the timeout runs; \<^verbatim>\<open>dataChannel.onerror\<close>.\<close>

definition truthy_string :: "string option \<Rightarrow> bool" where
  "truthy_string x = (case x of None \<Rightarrow> False | Some v \<Rightarrow> v \<noteq> [])"

definition onopen :: "client \<Rightarrow> client" where
  "onopen s =
     (if truthy_string (initialInstructions (config s)) then s\<lparr>timeouts := timeouts s @ [500]\<rparr>
      else s)"

definition greeting_timeout :: "runtime \<Rightarrow> client \<Rightarrow> client" where
  "greeting_timeout rt s = sendJson rt (greeting_message (initialInstructions (config s))) s"

definition onerror :: "js_error \<Rightarrow> client \<Rightarrow> client" where
  "onerror e s = handleError e s"

text \<open>\<^verbatim>\<open>peerConnection.oniceconnectionstatechange\<close>: the handler reads the ICE state of the
  connection the client refers to now.\<close>

definition oniceconnectionstatechange :: "client \<Rightarrow> client" where
  "oniceconnectionstatechange s =
     (case peerConnection s of
        None \<Rightarrow> s
      | Some p \<Rightarrow>
          if iceConnectionState (connections s p) = IceConnected
            then updateConnectionState Connected s
          else if iceConnectionState (connections s p) = IceFailed
            then handleError (JSError ''ICE connection failed'') (updateConnectionState Error s)
          else s)"

section \<open>Audio analysis\<close>

text \<open>The body of \<^verbatim>\<open>analyze\<close> in \<^verbatim>\<open>startAudioAnalysis()\<close>, run once by it and once per
  animation frame. The samples handed to the callbacks are not modelled.\<close>

definition truthy_handle :: "nat option \<Rightarrow> bool" where
  "truthy_handle x = (case x of None \<Rightarrow> False | Some h \<Rightarrow> h \<noteq> 0)"

definition analyze :: "client \<Rightarrow> client" where
  "analyze s =
     (let s1 = (if inputAnalyser s \<noteq> None \<and> onMicrophoneSpectrum (config s)
                then call OnMicrophoneSpectrum s else s);
          s2 = (if inputAnalyser s1 \<noteq> None \<and> onMicrophoneLevel (config s1)
                then call OnMicrophoneLevel s1 else s1);
          s3 = (if outputAnalyser s2 \<noteq> None \<and> onPlaybackSpectrum (config s2)
                then call OnPlaybackSpectrum s2 else s2);
          s4 = (if outputAnalyser s3 \<noteq> None \<and> onPlaybackLevel (config s3)
                then call OnPlaybackLevel s3 else s3)
      in (case requestAnimationFrame s4 of (h, s5) \<Rightarrow> s5\<lparr>animationFrameId := Some h\<rparr>))"

definition startAudioAnalysis :: "client \<Rightarrow> client" where
  "startAudioAnalysis s = analyze s"

text \<open>\<^verbatim>\<open>setupAudioAnalysis()\<close>; \<open>ctor\<close> is the exception \<^verbatim>\<open>new AudioContext()\<close> throws, if
  any.\<close>

definition setupAudioAnalysis :: "js_error option \<Rightarrow> client \<Rightarrow> js_error option \<times> client" where
  "setupAudioAnalysis ctor s =
     (case ctor of
        Some e \<Rightarrow> (Some e, s)
      | None \<Rightarrow>
          let a = nextContext s;
              s1 = s\<lparr>audioContext := Some a, contextClosed := (contextClosed s)(a := False),
                     nextContext := Suc a\<rparr>
          in (case localStream s1 of
                Some st \<Rightarrow>
                  if onMicrophoneLevel (config s1) \<or> onMicrophoneSpectrum (config s1)
                  then (None, startAudioAnalysis
                                (s1\<lparr>inputAnalyser := Some \<lparr>fftSize = 128, analysed = st\<rparr>\<rparr>))
                  else (None, s1)
              | None \<Rightarrow> (None, s1)))"

text \<open>\<^verbatim>\<open>setupPlaybackAnalysis(stream)\<close>.\<close>

definition setupPlaybackAnalysis :: "MediaStream \<Rightarrow> client \<Rightarrow> client" where
  "setupPlaybackAnalysis st s =
     (if audioContext s = None
         \<or> (\<not> onPlaybackLevel (config s) \<and> \<not> onPlaybackSpectrum (config s)) then s
      else if getAudioTracks st s = [] then s
      else
        let s1 = s\<lparr>outputAnalyser := Some \<lparr>fftSize = 128, analysed = st\<rparr>\<rparr>
        in if \<not> truthy_handle (animationFrameId s1) then startAudioAnalysis s1 else s1)"

text \<open>\<^verbatim>\<open>peerConnection.ontrack\<close>, called with \<^verbatim>\<open>event.streams[0]\<close>.\<close>

definition new_Audio :: "client \<Rightarrow> nat \<times> client" where
  "new_Audio s =
     (nextAudioElement s,
      s\<lparr>audioElements := (audioElements s)(nextAudioElement s :=
            \<lparr>autoplay = False, paused = True, muted = False, srcObject = None,
             srcObject_assigned = []\<rparr>),
        nextAudioElement := Suc (nextAudioElement s)\<rparr>)"

definition ontrack :: "MediaStream \<Rightarrow> client \<Rightarrow> client" where
  "ontrack st s =
     (let (a, s1) =
            (case audioElement s of
               Some a \<Rightarrow> (a, s)
             | None \<Rightarrow>
                 (case new_Audio s of
                    (a, s0) \<Rightarrow>
                      (a, s0\<lparr>audioElement := Some a,
                             audioElements := (audioElements s0)(a := (audioElements s0 a)
                                \<lparr>autoplay := True\<rparr>)\<rparr>)));
          s2 = audio_set_srcObject a (Some st) s1;
          s3 = audio_set_muted a (playbackMuted s2) s2
      in if audioContext s3 \<noteq> None
            \<and> (onPlaybackLevel (config s3) \<or> onPlaybackSpectrum (config s3))
         then setupPlaybackAnalysis st s3 else s3)"

text \<open>\<^verbatim>\<open>toggleMicrophone(enabled)\<close>, \<^verbatim>\<open>togglePlayback(enabled)\<close>,
  \<^verbatim>\<open>getConnectionState()\<close>.\<close>

definition toggleMicrophone :: "bool \<Rightarrow> client \<Rightarrow> client" where
  "toggleMicrophone b s =
     (let s1 = s\<lparr>microphoneMuted := \<not> b\<rparr>
      in (case localStream s1 of
            None \<Rightarrow> s1
          | Some st \<Rightarrow> fold (track_set_enabled b) (getAudioTracks st s1) s1))"

definition togglePlayback :: "bool \<Rightarrow> client \<Rightarrow> client" where
  "togglePlayback b s =
     (let s1 = s\<lparr>playbackMuted := \<not> b\<rparr>
      in (case audioElement s1 of None \<Rightarrow> s1 | Some a \<Rightarrow> audio_set_muted a (\<not> b) s1))"

definition getConnectionState :: "client \<Rightarrow> ConnectionState" where
  "getConnectionState s = connectionState s"


section \<open>connect\<close>

text \<open>
  What the environment answers to one call of \<^verbatim>\<open>connect\<close>: for each awaited promise
  the error it rejects with or the value it resolves to, and for each constructor the
  exception it throws, if any. \<open>userMedia\<close> resolves to a stream of that many fresh audio
  tracks.
\<close>

record environment =
  token_response :: "js_error + Response"
  userMedia :: "js_error + nat"
  new_AudioContext :: "js_error option"
  new_RTCPeerConnection :: "js_error option"
  createOffer :: "js_error + string"
  setLocalDescription :: "js_error option"
  answer_response :: "js_error + Response"
  setRemoteDescription :: "js_error option"

text \<open>The decimal digits of a number, as a template literal prints it.\<close>

function show_nat :: "nat \<Rightarrow> string" where
  "show_nat n =
     (if n < 10 then [''0123456789'' ! n]
      else show_nat (n div 10) @ [''0123456789'' ! (n mod 10)])"
  by pat_completeness auto
termination
  by (relation "measure id") auto

declare show_nat.simps [simp del]

text \<open>\<^verbatim>\<open>s.replace(/\/v1\/?$/, '')\<close>: a final \<^verbatim>\<open>/v1\<close> or \<^verbatim>\<open>/v1/\<close> is removed.\<close>

definition ends_with :: "string \<Rightarrow> string \<Rightarrow> bool" where
  "ends_with p s = (length p \<le> length s \<and> drop (length s - length p) s = p)"

definition strip_v1 :: "string \<Rightarrow> string" where
  "strip_v1 s =
     (if ends_with ''/v1/'' s then take (length s - 4) s
      else if ends_with ''/v1'' s then take (length s - 3) s
      else s)"

text \<open>\<^verbatim>\<open>fetchToken()\<close>: the request is recorded, the answer is the environment's.\<close>

definition sessionConfig :: "client \<Rightarrow> jsval" where
  "sessionConfig s =
     JObj [(''session'',
            JObj ([(''type'', JStr ''realtime''),
                   (''model'', JStr ''gpt-realtime''),
                   (''instructions'', JStr (systemPrompt (config s))),
                   (''audio'',
                    JObj [(''input'',
                           JObj [(''turn_detection'',
                                  JObj [(''type'', JStr ''semantic_vad''),
                                        (''create_response'', JBool True),
                                        (''interrupt_response'', JBool True)])]),
                          (''output'', JObj [(''voice'', JStr (voice (config s)))])])]
                  @ (if tools (config s) \<noteq> [] then [(''tools'', JArr (tools (config s)))]
                     else []))),
           (''conversationId'',
            (case conversationId s of None \<Rightarrow> JUndefined | Some c \<Rightarrow> JStr c))]"

definition fetchToken :: "runtime \<Rightarrow> environment \<Rightarrow> client \<Rightarrow> (js_error + jsval) \<times> client" where
  "fetchToken rt env s =
     (let authorized = truthy_string (authToken (config s));
          hs = [(''Content-Type'', ''application/json'')]
               @ (case authToken (config s) of
                    Some t \<Rightarrow> if authorized then [(''Authorization'', ''Bearer '' @ t)] else []
                  | None \<Rightarrow> []);
          s1 = s\<lparr>console := console s @
                  [case authToken (config s) of
                     Some t \<Rightarrow>
                       if authorized
                       then ConsoleLog [Txt ''Using auth token for realtime API:'',
                                        Txt (take 20 t @ ''...'')]
                       else ConsoleWarn [Txt ''No auth token provided for realtime API'']
                   | None \<Rightarrow> ConsoleWarn [Txt ''No auth token provided for realtime API'']]\<rparr>;
          s2 = s1\<lparr>requests := requests s1 @
                  [\<lparr>url = ''/api/realtime/client-secret'', http_method = ''POST'', headers = hs,
                    credentials = Some ''include'',
                    body = JSON_stringify rt (sessionConfig s)\<rparr>]\<rparr>
      in (case token_response env of
            Inl e \<Rightarrow> (Inl e, s2)
          | Inr response \<Rightarrow>
              if \<not> ok response
              then (Inl (JSError (''Failed to fetch token: '' @ show_nat (status response))), s2)
              else (json_body response, s2)))"

text \<open>\<^verbatim>\<open>tokenData.client_secret?.value || tokenData.value\<close>.\<close>

definition token_of :: "jsval \<Rightarrow> js_error + jsval" where
  "token_of tokenData =
     (case get_prop tokenData ''client_secret'' of
        Inl e \<Rightarrow> Inl e
      | Inr secret \<Rightarrow> Inr (js_or (opt_prop secret ''value'') (opt_prop tokenData ''value'')))"

text \<open>\<^verbatim>\<open>navigator.mediaDevices.getUserMedia({ audio: true })\<close>.\<close>

definition getUserMedia :: "environment \<Rightarrow> client \<Rightarrow> (js_error + MediaStream) \<times> client" where
  "getUserMedia env s =
     (case userMedia env of
        Inl e \<Rightarrow> (Inl e, s)
      | Inr n \<Rightarrow>
          (Inr [nextTrack s ..< nextTrack s + n],
           s\<lparr>tracks := (\<lambda>t. if nextTrack s \<le> t \<and> t < nextTrack s + n
                              then \<lparr>kind = Audio, enabled = True, ended = False\<rparr>
                              else tracks s t),
             nextTrack := nextTrack s + n\<rparr>))"

text \<open>\<^verbatim>\<open>new RTCPeerConnection()\<close>, \<^verbatim>\<open>pc.addTrack(track, stream)\<close> and
  \<^verbatim>\<open>setupDataChannel()\<close>, whose handlers are the definitions above.\<close>

definition new_PeerConnection :: "client \<Rightarrow> nat \<times> client" where
  "new_PeerConnection s =
     (nextConnection s,
      s\<lparr>connections := (connections s)(nextConnection s :=
            \<lparr>pc_closed = False, senders = [], iceConnectionState = IceNew, pc_channels = [],
             localDescription = None, remoteDescription = None\<rparr>),
        nextConnection := Suc (nextConnection s)\<rparr>)"

definition addTrack :: "nat \<Rightarrow> nat \<Rightarrow> client \<Rightarrow> client" where
  "addTrack p t s =
     s\<lparr>connections := (connections s)(p := (connections s p)
        \<lparr>senders := senders (connections s p) @ [Some t]\<rparr>)\<rparr>"

definition setupDataChannel :: "nat \<Rightarrow> client \<Rightarrow> client" where
  "setupDataChannel p s =
     (let c = nextChannel s
      in s\<lparr>channels := (channels s)(c :=
              \<lparr>label = ''oai-events'', readyState = ChConnecting, sent = []\<rparr>),
           nextChannel := Suc c,
           connections := (connections s)(p := (connections s p)
              \<lparr>pc_channels := pc_channels (connections s p) @ [c]\<rparr>),
           dataChannel := Some c\<rparr>)"

text \<open>The address of the negotiation: \<^verbatim>\<open>tokenData.proxy_url || 'https://api.openai.com'\<close>,
  whose \<^verbatim>\<open>replace\<close> exists when it is a string.\<close>

definition apiUrl :: "jsval \<Rightarrow> js_error + string" where
  "apiUrl tokenData =
     (case js_or (opt_prop tokenData ''proxy_url'') (JStr ''https://api.openai.com'') of
        JStr baseUrl \<Rightarrow> Inr (strip_v1 baseUrl @ ''/v1/realtime/calls'')
      | _ \<Rightarrow> Inl (JSTypeError ''baseUrl.replace is not a function''))"

text \<open>Create and send the offer, apply the answer: the rest of the \<^verbatim>\<open>try\<close> block.\<close>

definition set_description :: "bool \<Rightarrow> nat \<Rightarrow> jsval \<Rightarrow> client \<Rightarrow> client" where
  "set_description remote p d s =
     s\<lparr>connections := (connections s)(p :=
         (if remote then (connections s p)\<lparr>remoteDescription := Some d\<rparr>
          else (connections s p)\<lparr>localDescription := Some d\<rparr>))\<rparr>"

definition send_offer :: "runtime \<Rightarrow> environment \<Rightarrow> jsval \<Rightarrow> jsval \<Rightarrow> nat \<Rightarrow> string \<Rightarrow> client
    \<Rightarrow> js_error option \<times> client" where
  "send_offer rt env tokenData token p sdp s =
     (case apiUrl tokenData of
        Inl e \<Rightarrow> (Some e, s)
      | Inr u \<Rightarrow>
          let s1 = s\<lparr>console := console s @
                      [ConsoleLog [Txt ''Connecting to realtime API at:'', Txt u]]\<rparr>;
              s2 = s1\<lparr>requests := requests s1 @
                      [\<lparr>url = u @ ''?model=gpt-realtime'', http_method = ''POST'',
                        headers = [(''Authorization'', ''Bearer '' @ ToString rt token),
                                   (''Content-Type'', ''application/sdp'')],
                        credentials = None, body = JStr sdp\<rparr>]\<rparr>
          in (case answer_response env of
                Inl e \<Rightarrow> (Some e, s2)
              | Inr response \<Rightarrow>
                  if \<not> ok response
                  then (Some (JSError (''Failed to connect: '' @ show_nat (status response))), s2)
                  else
                    (case text_body response of
                       Inl e \<Rightarrow> (Some e, s2)
                     | Inr answerSdp \<Rightarrow>
                         (case setRemoteDescription env of
                            Some e \<Rightarrow> (Some e, s2)
                          | None \<Rightarrow>
                              (None,
                               set_description True p
                                 (JObj [(''type'', JStr ''answer''), (''sdp'', JStr answerSdp)])
                                 s2)))))"

definition negotiate :: "runtime \<Rightarrow> environment \<Rightarrow> jsval \<Rightarrow> jsval \<Rightarrow> nat \<Rightarrow> client
    \<Rightarrow> js_error option \<times> client" where
  "negotiate rt env tokenData token p s =
     (case createOffer env of
        Inl e \<Rightarrow> (Some e, s)
      | Inr sdp \<Rightarrow>
          (case setLocalDescription env of
             Some e \<Rightarrow> (Some e, s)
           | None \<Rightarrow>
               send_offer rt env tokenData token p sdp
                 (set_description False p
                    (JObj [(''type'', JStr ''offer''), (''sdp'', JStr sdp)]) s)))"

text \<open>Create the peer connection, add the microphone tracks, set up the data channel.\<close>

definition build_transport :: "runtime \<Rightarrow> environment \<Rightarrow> jsval \<Rightarrow> jsval \<Rightarrow> MediaStream \<Rightarrow> client
    \<Rightarrow> js_error option \<times> client" where
  "build_transport rt env tokenData token st s =
     (case new_RTCPeerConnection env of
        Some e \<Rightarrow> (Some e, s)
      | None \<Rightarrow>
          (case new_PeerConnection s of
             (p, s1) \<Rightarrow>
               negotiate rt env tokenData token p
                 (setupDataChannel p (fold (addTrack p) st (s1\<lparr>peerConnection := Some p\<rparr>)))))"

text \<open>The \<^verbatim>\<open>try\<close> block of \<^verbatim>\<open>connect\<close>, after the state is set to connecting.\<close>

definition connect_try :: "runtime \<Rightarrow> environment \<Rightarrow> client \<Rightarrow> js_error option \<times> client" where
  "connect_try rt env s =
     (case fetchToken rt env s of
        (Inl e, s1) \<Rightarrow> (Some e, s1)
      | (Inr tokenData, s1) \<Rightarrow>
          (case token_of tokenData of
             Inl e \<Rightarrow> (Some e, s1)
           | Inr token \<Rightarrow>
               (case getUserMedia env s1 of
                  (Inl e, s2) \<Rightarrow> (Some e, s2)
                | (Inr st, s2) \<Rightarrow>
                    let s3 = s2\<lparr>localStream := Some st\<rparr>
                    in if onMicrophoneSpectrum (config s3) \<or> onMicrophoneLevel (config s3)
                          \<or> onPlaybackSpectrum (config s3) \<or> onPlaybackLevel (config s3)
                       then
                         (case setupAudioAnalysis (new_AudioContext env) s3 of
                            (Some e, s4) \<Rightarrow> (Some e, s4)
                          | (None, s4) \<Rightarrow> build_transport rt env tokenData token st s4)
                       else build_transport rt env tokenData token st s3)))"

text \<open>
  \<^verbatim>\<open>connect(conversationId)\<close>. The first component is the error the promise rejects
  with, \<open>None\<close> when it resolves; the second is the state at that moment. The call runs
  to its end without another handler or method of the client running in between.
\<close>

definition connect :: "runtime \<Rightarrow> environment \<Rightarrow> string option \<Rightarrow> client \<Rightarrow> js_error option \<times> client" where
  "connect rt env cid s =
     (case connect_try rt env (updateConnectionState Connecting (s\<lparr>conversationId := cid\<rparr>)) of
        (None, s1) \<Rightarrow> (None, s1)
      | (Some e, s1) \<Rightarrow> (Some e, disconnect (handleError e s1)))"

text \<open>The browser changes the ICE state of a connection and fires the event.\<close>

definition ice_event :: "nat \<Rightarrow> ice_state \<Rightarrow> client \<Rightarrow> client" where
  "ice_event p st s =
     oniceconnectionstatechange
       (s\<lparr>connections := (connections s)(p := (connections s p)\<lparr>iceConnectionState := st\<rparr>)\<rparr>)"

text \<open>The browser opens a data channel and fires \<^verbatim>\<open>onopen\<close>.\<close>

definition open_event :: "nat \<Rightarrow> client \<Rightarrow> client" where
  "open_event c s =
     onopen (s\<lparr>channels := (channels s)(c := (channels s c)\<lparr>readyState := ChOpen\<rparr>)\<rparr>)"

section \<open>A new client\<close>

text \<open>The defaults of the constructor, with no callback configured, and the fields of a
  new client in a browser that holds no object yet.\<close>

definition default_config :: RealtimeVoiceConfig where
  "default_config =
     \<lparr>voice = ''cedar'', language = ''en'',
      systemPrompt = ''You are a helpful, conversational assistant.'',
      initialInstructions = None, authToken = None, tools = [],
      onConnectionStateChange = False, onTranscript = False, onTranscriptChunk = False,
      onUserTranscript = False, onResponseStart = False, onError = False, onToolCall = False,
      onMicrophoneLevel = False, onMicrophoneSpectrum = False, onPlaybackLevel = False,
      onPlaybackSpectrum = False\<rparr>"

definition new_client :: "RealtimeVoiceConfig \<Rightarrow> client" where
  "new_client cfg =
     \<lparr>peerConnection = None, dataChannel = None, localStream = None, audioElement = None,
      connectionState = Disconnected, microphoneMuted = False, playbackMuted = False,
      audioContext = None, inputAnalyser = None, outputAnalyser = None,
      animationFrameId = None, config = cfg, conversationId = None,
      tracks = (\<lambda>_. \<lparr>kind = Audio, enabled = True, ended = False\<rparr>), nextTrack = 0,
      connections = (\<lambda>_. \<lparr>pc_closed = False, senders = [], iceConnectionState = IceNew,
                           pc_channels = [], localDescription = None,
                           remoteDescription = None\<rparr>),
      nextConnection = 0,
      channels = (\<lambda>_. \<lparr>label = [], readyState = ChConnecting, sent = []\<rparr>), nextChannel = 0,
      audioElements = (\<lambda>_. \<lparr>autoplay = False, paused = True, muted = False, srcObject = None,
                             srcObject_assigned = []\<rparr>),
      nextAudioElement = 0,
      contextClosed = (\<lambda>_. False), nextContext = 0,
      frameHandle = 0, frames = [], timeouts = [], requests = [], callbacks = [],
      console = []\<rparr>"


section \<open>Concrete inputs\<close>

text \<open>
  A runtime, a configuration and an environment for the examples below: the parser
  accepts two texts, every callback the examples look at is configured, and every step
  of the connection succeeds.
\<close>

definition example_runtime :: runtime where
  "example_runtime =
     \<lparr>JSON_parse = (\<lambda>v. if v = JStr ''{}'' then Inr (JObj [])
                         else if v = JStr ''{\"city\":\"Paris\"}''
                           then Inr (JObj [(''city'', JStr ''Paris'')])
                         else Inl (JSSyntaxError ''Unexpected token'')),
      JSON_stringify = (\<lambda>v. v),
      ToString = (\<lambda>v. case v of JStr x \<Rightarrow> x | _ \<Rightarrow> ''[object Object]'')\<rparr>"

definition example_config :: RealtimeVoiceConfig where
  "example_config =
     default_config\<lparr>onConnectionStateChange := True, onTranscript := True, onError := True,
                    onToolCall := True\<rparr>"

definition example_environment :: environment where
  "example_environment =
     \<lparr>token_response =
        Inr \<lparr>ok = True, status = 200, json_body = Inr (JObj [(''value'', JStr ''ek_1'')]),
             text_body = Inr ''{\"value\":\"ek_1\"}''\<rparr>,
      userMedia = Inr 1,
      new_AudioContext = None,
      new_RTCPeerConnection = None,
      createOffer = Inr ''v=0 offer'',
      setLocalDescription = None,
      answer_response =
        Inr \<lparr>ok = True, status = 201, json_body = Inl (JSSyntaxError ''Unexpected token''),
             text_body = Inr ''v=0 answer''\<rparr>,
      setRemoteDescription = None\<rparr>"

text \<open>The client after a first \<^verbatim>\<open>connect()\<close> has resolved, and the session once the
  transport has reported connected, the channel has opened and a remote track has
  arrived.\<close>

definition example_connecting :: client where
  "example_connecting = snd (connect example_runtime example_environment None (new_client example_config))"

definition example_session :: client where
  "example_session = ontrack [7] (open_event 0 (ice_event 0 IceConnected example_connecting))"



section \<open>The effect of each step on each field\<close>

subsection \<open>Loops over tracks, senders and channels\<close>

lemma fold_track_stop:
  "fold track_stop st s = s\<lparr>tracks := fold (\<lambda>t f. f(t := (f t)\<lparr>ended := True\<rparr>)) st (tracks s)\<rparr>"
  by (induction st arbitrary: s) (simp_all add: track_stop_def)

lemma fold_sender_stop:
  "fold sender_stop xs s =
     s\<lparr>tracks := fold (\<lambda>x f. case x of None \<Rightarrow> f | Some t \<Rightarrow> f(t := (f t)\<lparr>ended := True\<rparr>)) xs (tracks s)\<rparr>"
  by (induction xs arbitrary: s) (simp_all add: sender_stop_def track_stop_def split: option.splits)

lemma fold_channel_closed_by_pc:
  "fold channel_closed_by_pc cs s =
     s\<lparr>channels := fold (\<lambda>c f. f(c := (f c)\<lparr>readyState := ChClosed\<rparr>)) cs (channels s)\<rparr>"
  by (induction cs arbitrary: s) (simp_all add: channel_closed_by_pc_def)

lemma fold_addTrack:
  "fold (addTrack p) st s =
     s\<lparr>connections := (connections s)(p := (connections s p)
        \<lparr>senders := senders (connections s p) @ map Some st\<rparr>)\<rparr>"
  by (induction st arbitrary: s) (simp_all add: addTrack_def)

lemma fold_stop_ended:
  "ended (fold (\<lambda>t f. f(t := (f t)\<lparr>ended := True\<rparr>)) st f0 t) = (t \<in> set st \<or> ended (f0 t))"
  by (induction st arbitrary: f0) auto



subsection \<open>The blocks of disconnect\<close>

lemma stop_audio_analysis_unchanged [simp]:
  "peerConnection (stop_audio_analysis s) = peerConnection s"
  "dataChannel (stop_audio_analysis s) = dataChannel s"
  "localStream (stop_audio_analysis s) = localStream s"
  "audioElement (stop_audio_analysis s) = audioElement s"
  "connectionState (stop_audio_analysis s) = connectionState s"
  "microphoneMuted (stop_audio_analysis s) = microphoneMuted s"
  "playbackMuted (stop_audio_analysis s) = playbackMuted s"
  "audioContext (stop_audio_analysis s) = audioContext s"
  "inputAnalyser (stop_audio_analysis s) = inputAnalyser s"
  "outputAnalyser (stop_audio_analysis s) = outputAnalyser s"
  "config (stop_audio_analysis s) = config s"
  "conversationId (stop_audio_analysis s) = conversationId s"
  "tracks (stop_audio_analysis s) = tracks s"
  "nextTrack (stop_audio_analysis s) = nextTrack s"
  "connections (stop_audio_analysis s) = connections s"
  "nextConnection (stop_audio_analysis s) = nextConnection s"
  "channels (stop_audio_analysis s) = channels s"
  "nextChannel (stop_audio_analysis s) = nextChannel s"
  "audioElements (stop_audio_analysis s) = audioElements s"
  "nextAudioElement (stop_audio_analysis s) = nextAudioElement s"
  "contextClosed (stop_audio_analysis s) = contextClosed s"
  "nextContext (stop_audio_analysis s) = nextContext s"
  "frameHandle (stop_audio_analysis s) = frameHandle s"
  "timeouts (stop_audio_analysis s) = timeouts s"
  "requests (stop_audio_analysis s) = requests s"
  "callbacks (stop_audio_analysis s) = callbacks s"
  "console (stop_audio_analysis s) = console s"
  by (simp_all add: stop_audio_analysis_def cancelAnimationFrame_def split: option.split)

lemma close_audio_context_unchanged [simp]:
  "peerConnection (close_audio_context s) = peerConnection s"
  "dataChannel (close_audio_context s) = dataChannel s"
  "localStream (close_audio_context s) = localStream s"
  "audioElement (close_audio_context s) = audioElement s"
  "connectionState (close_audio_context s) = connectionState s"
  "microphoneMuted (close_audio_context s) = microphoneMuted s"
  "playbackMuted (close_audio_context s) = playbackMuted s"
  "animationFrameId (close_audio_context s) = animationFrameId s"
  "config (close_audio_context s) = config s"
  "conversationId (close_audio_context s) = conversationId s"
  "tracks (close_audio_context s) = tracks s"
  "nextTrack (close_audio_context s) = nextTrack s"
  "connections (close_audio_context s) = connections s"
  "nextConnection (close_audio_context s) = nextConnection s"
  "channels (close_audio_context s) = channels s"
  "nextChannel (close_audio_context s) = nextChannel s"
  "audioElements (close_audio_context s) = audioElements s"
  "nextAudioElement (close_audio_context s) = nextAudioElement s"
  "nextContext (close_audio_context s) = nextContext s"
  "frameHandle (close_audio_context s) = frameHandle s"
  "frames (close_audio_context s) = frames s"
  "timeouts (close_audio_context s) = timeouts s"
  "requests (close_audio_context s) = requests s"
  "callbacks (close_audio_context s) = callbacks s"
  "console (close_audio_context s) = console s"
  by (simp_all add: close_audio_context_def context_close_def split: option.split)

lemma stop_microphone_tracks_unchanged [simp]:
  "peerConnection (stop_microphone_tracks s) = peerConnection s"
  "dataChannel (stop_microphone_tracks s) = dataChannel s"
  "audioElement (stop_microphone_tracks s) = audioElement s"
  "connectionState (stop_microphone_tracks s) = connectionState s"
  "microphoneMuted (stop_microphone_tracks s) = microphoneMuted s"
  "playbackMuted (stop_microphone_tracks s) = playbackMuted s"
  "audioContext (stop_microphone_tracks s) = audioContext s"
  "inputAnalyser (stop_microphone_tracks s) = inputAnalyser s"
  "outputAnalyser (stop_microphone_tracks s) = outputAnalyser s"
  "animationFrameId (stop_microphone_tracks s) = animationFrameId s"
  "config (stop_microphone_tracks s) = config s"
  "conversationId (stop_microphone_tracks s) = conversationId s"
  "nextTrack (stop_microphone_tracks s) = nextTrack s"
  "connections (stop_microphone_tracks s) = connections s"
  "nextConnection (stop_microphone_tracks s) = nextConnection s"
  "channels (stop_microphone_tracks s) = channels s"
  "nextChannel (stop_microphone_tracks s) = nextChannel s"
  "audioElements (stop_microphone_tracks s) = audioElements s"
  "nextAudioElement (stop_microphone_tracks s) = nextAudioElement s"
  "contextClosed (stop_microphone_tracks s) = contextClosed s"
  "nextContext (stop_microphone_tracks s) = nextContext s"
  "frameHandle (stop_microphone_tracks s) = frameHandle s"
  "frames (stop_microphone_tracks s) = frames s"
  "timeouts (stop_microphone_tracks s) = timeouts s"
  "requests (stop_microphone_tracks s) = requests s"
  "callbacks (stop_microphone_tracks s) = callbacks s"
  "console (stop_microphone_tracks s) = console s"
  by (simp_all add: stop_microphone_tracks_def fold_track_stop split: option.split)

lemma stop_sender_tracks_unchanged [simp]:
  "dataChannel (stop_sender_tracks s) = dataChannel s"
  "localStream (stop_sender_tracks s) = localStream s"
  "audioElement (stop_sender_tracks s) = audioElement s"
  "connectionState (stop_sender_tracks s) = connectionState s"
  "microphoneMuted (stop_sender_tracks s) = microphoneMuted s"
  "playbackMuted (stop_sender_tracks s) = playbackMuted s"
  "audioContext (stop_sender_tracks s) = audioContext s"
  "inputAnalyser (stop_sender_tracks s) = inputAnalyser s"
  "outputAnalyser (stop_sender_tracks s) = outputAnalyser s"
  "animationFrameId (stop_sender_tracks s) = animationFrameId s"
  "config (stop_sender_tracks s) = config s"
  "conversationId (stop_sender_tracks s) = conversationId s"
  "nextTrack (stop_sender_tracks s) = nextTrack s"
  "nextConnection (stop_sender_tracks s) = nextConnection s"
  "nextChannel (stop_sender_tracks s) = nextChannel s"
  "audioElements (stop_sender_tracks s) = audioElements s"
  "nextAudioElement (stop_sender_tracks s) = nextAudioElement s"
  "contextClosed (stop_sender_tracks s) = contextClosed s"
  "nextContext (stop_sender_tracks s) = nextContext s"
  "frameHandle (stop_sender_tracks s) = frameHandle s"
  "frames (stop_sender_tracks s) = frames s"
  "timeouts (stop_sender_tracks s) = timeouts s"
  "requests (stop_sender_tracks s) = requests s"
  "callbacks (stop_sender_tracks s) = callbacks s"
  "console (stop_sender_tracks s) = console s"
  by (simp_all add: stop_sender_tracks_def pc_close_def fold_sender_stop fold_channel_closed_by_pc split: option.split)

lemma clean_up_audio_element_unchanged [simp]:
  "peerConnection (clean_up_audio_element s) = peerConnection s"
  "dataChannel (clean_up_audio_element s) = dataChannel s"
  "localStream (clean_up_audio_element s) = localStream s"
  "connectionState (clean_up_audio_element s) = connectionState s"
  "microphoneMuted (clean_up_audio_element s) = microphoneMuted s"
  "playbackMuted (clean_up_audio_element s) = playbackMuted s"
  "audioContext (clean_up_audio_element s) = audioContext s"
  "inputAnalyser (clean_up_audio_element s) = inputAnalyser s"
  "outputAnalyser (clean_up_audio_element s) = outputAnalyser s"
  "animationFrameId (clean_up_audio_element s) = animationFrameId s"
  "config (clean_up_audio_element s) = config s"
  "conversationId (clean_up_audio_element s) = conversationId s"
  "tracks (clean_up_audio_element s) = tracks s"
  "nextTrack (clean_up_audio_element s) = nextTrack s"
  "connections (clean_up_audio_element s) = connections s"
  "nextConnection (clean_up_audio_element s) = nextConnection s"
  "channels (clean_up_audio_element s) = channels s"
  "nextChannel (clean_up_audio_element s) = nextChannel s"
  "nextAudioElement (clean_up_audio_element s) = nextAudioElement s"
  "contextClosed (clean_up_audio_element s) = contextClosed s"
  "nextContext (clean_up_audio_element s) = nextContext s"
  "frameHandle (clean_up_audio_element s) = frameHandle s"
  "frames (clean_up_audio_element s) = frames s"
  "timeouts (clean_up_audio_element s) = timeouts s"
  "requests (clean_up_audio_element s) = requests s"
  "callbacks (clean_up_audio_element s) = callbacks s"
  "console (clean_up_audio_element s) = console s"
  by (simp_all add: clean_up_audio_element_def audio_pause_def audio_set_srcObject_def split: option.split)

lemma close_data_channel_unchanged [simp]:
  "peerConnection (close_data_channel s) = peerConnection s"
  "localStream (close_data_channel s) = localStream s"
  "audioElement (close_data_channel s) = audioElement s"
  "connectionState (close_data_channel s) = connectionState s"
  "microphoneMuted (close_data_channel s) = microphoneMuted s"
  "playbackMuted (close_data_channel s) = playbackMuted s"
  "audioContext (close_data_channel s) = audioContext s"
  "inputAnalyser (close_data_channel s) = inputAnalyser s"
  "outputAnalyser (close_data_channel s) = outputAnalyser s"
  "animationFrameId (close_data_channel s) = animationFrameId s"
  "config (close_data_channel s) = config s"
  "conversationId (close_data_channel s) = conversationId s"
  "tracks (close_data_channel s) = tracks s"
  "nextTrack (close_data_channel s) = nextTrack s"
  "connections (close_data_channel s) = connections s"
  "nextConnection (close_data_channel s) = nextConnection s"
  "nextChannel (close_data_channel s) = nextChannel s"
  "audioElements (close_data_channel s) = audioElements s"
  "nextAudioElement (close_data_channel s) = nextAudioElement s"
  "contextClosed (close_data_channel s) = contextClosed s"
  "nextContext (close_data_channel s) = nextContext s"
  "frameHandle (close_data_channel s) = frameHandle s"
  "frames (close_data_channel s) = frames s"
  "timeouts (close_data_channel s) = timeouts s"
  "requests (close_data_channel s) = requests s"
  "callbacks (close_data_channel s) = callbacks s"
  "console (close_data_channel s) = console s"
  by (simp_all add: close_data_channel_def channel_close_def split: option.split)

lemma updateConnectionState_unchanged [simp]:
  "peerConnection (updateConnectionState st s) = peerConnection s"
  "dataChannel (updateConnectionState st s) = dataChannel s"
  "localStream (updateConnectionState st s) = localStream s"
  "audioElement (updateConnectionState st s) = audioElement s"
  "microphoneMuted (updateConnectionState st s) = microphoneMuted s"
  "playbackMuted (updateConnectionState st s) = playbackMuted s"
  "audioContext (updateConnectionState st s) = audioContext s"
  "inputAnalyser (updateConnectionState st s) = inputAnalyser s"
  "outputAnalyser (updateConnectionState st s) = outputAnalyser s"
  "animationFrameId (updateConnectionState st s) = animationFrameId s"
  "config (updateConnectionState st s) = config s"
  "conversationId (updateConnectionState st s) = conversationId s"
  "tracks (updateConnectionState st s) = tracks s"
  "nextTrack (updateConnectionState st s) = nextTrack s"
  "connections (updateConnectionState st s) = connections s"
  "nextConnection (updateConnectionState st s) = nextConnection s"
  "channels (updateConnectionState st s) = channels s"
  "nextChannel (updateConnectionState st s) = nextChannel s"
  "audioElements (updateConnectionState st s) = audioElements s"
  "nextAudioElement (updateConnectionState st s) = nextAudioElement s"
  "contextClosed (updateConnectionState st s) = contextClosed s"
  "nextContext (updateConnectionState st s) = nextContext s"
  "frameHandle (updateConnectionState st s) = frameHandle s"
  "frames (updateConnectionState st s) = frames s"
  "timeouts (updateConnectionState st s) = timeouts s"
  "requests (updateConnectionState st s) = requests s"
  "console (updateConnectionState st s) = console s"
  by (simp_all add: updateConnectionState_def Let_def)

lemma blocks_changed [simp]:
  "animationFrameId (stop_audio_analysis s) = (if animationFrameId s = Some 0 then Some 0 else None)"
  "audioContext (close_audio_context s) = None"
  "localStream (stop_microphone_tracks s) = None"
  "peerConnection (stop_sender_tracks s) = None"
  "audioElement (clean_up_audio_element s) = None"
  "dataChannel (close_data_channel s) = None"
  "connectionState (updateConnectionState st s) = st"
  "callbacks (updateConnectionState st s) =
     callbacks s @ (if onConnectionStateChange (config s) then [OnConnectionStateChange st] else [])"
  by (simp_all add: stop_audio_analysis_def cancelAnimationFrame_def close_audio_context_def
      context_close_def stop_microphone_tracks_def fold_track_stop stop_sender_tracks_def
      pc_close_def fold_sender_stop fold_channel_closed_by_pc clean_up_audio_element_def
      audio_pause_def audio_set_srcObject_def close_data_channel_def channel_close_def
      updateConnectionState_def Let_def split: option.splits)

lemma stop_audio_analysis_frames [simp]:
  "frames (stop_audio_analysis s) =
     (case animationFrameId s of
        None \<Rightarrow> frames s
      | Some h \<Rightarrow> if h \<noteq> 0 then removeAll h (frames s) else frames s)"
  by (simp add: stop_audio_analysis_def cancelAnimationFrame_def split: option.split)

lemma close_audio_context_closed [simp]:
  "contextClosed (close_audio_context s) a = (contextClosed s a \<or> audioContext s = Some a)"
  by (auto simp add: close_audio_context_def context_close_def split: option.split)

lemma stop_microphone_tracks_ended [simp]:
  "ended (tracks (stop_microphone_tracks s) t) =
     (ended (tracks s t) \<or> (\<exists>st. localStream s = Some st \<and> t \<in> set st))"
  by (auto simp add: stop_microphone_tracks_def fold_track_stop fold_stop_ended split: option.split)





subsection \<open>disconnect\<close>

lemma disconnect_refs:
  "peerConnection (disconnect s) = None"
  "dataChannel (disconnect s) = None"
  "localStream (disconnect s) = None"
  "audioElement (disconnect s) = None"
  "audioContext (disconnect s) = None"
  "animationFrameId (disconnect s) = (if animationFrameId s = Some 0 then Some 0 else None)"
  "connectionState (disconnect s) = Disconnected"
  "config (disconnect s) = config s"
  by (simp_all add: disconnect_def)

lemma blocks_skip:
  "animationFrameId s = None \<or> animationFrameId s = Some 0 \<Longrightarrow> stop_audio_analysis s = s"
  "audioContext s = None \<Longrightarrow> close_audio_context s = s"
  "localStream s = None \<Longrightarrow> stop_microphone_tracks s = s"
  "peerConnection s = None \<Longrightarrow> stop_sender_tracks s = s"
  "audioElement s = None \<Longrightarrow> clean_up_audio_element s = s"
  "dataChannel s = None \<Longrightarrow> close_data_channel s = s"
  by (auto simp add: stop_audio_analysis_def close_audio_context_def stop_microphone_tracks_def
      stop_sender_tracks_def clean_up_audio_element_def close_data_channel_def)

lemma disconnect_released:
  assumes "peerConnection s = None" "dataChannel s = None" "localStream s = None"
    "audioElement s = None" "audioContext s = None"
    "animationFrameId s = None \<or> animationFrameId s = Some 0"
  shows "disconnect s = updateConnectionState Disconnected s"
  using assms by (simp add: disconnect_def blocks_skip)

lemma disconnect_counters [simp]:
  "nextTrack (disconnect s) = nextTrack s"
  "nextConnection (disconnect s) = nextConnection s"
  "nextChannel (disconnect s) = nextChannel s"
  "nextContext (disconnect s) = nextContext s"
  "callbacks (disconnect s) =
     callbacks s @ (if onConnectionStateChange (config s) then [OnConnectionStateChange Disconnected] else [])"
  "frames (disconnect s) =
     (case animationFrameId s of
        None \<Rightarrow> frames s
      | Some h \<Rightarrow> if h \<noteq> 0 then removeAll h (frames s) else frames s)"
  by (simp_all add: disconnect_def)





subsection \<open>The steps of connect\<close>

lemma fetchToken_unchanged [simp]:
  "peerConnection (snd (fetchToken rt env s)) = peerConnection s"
  "dataChannel (snd (fetchToken rt env s)) = dataChannel s"
  "localStream (snd (fetchToken rt env s)) = localStream s"
  "audioElement (snd (fetchToken rt env s)) = audioElement s"
  "connectionState (snd (fetchToken rt env s)) = connectionState s"
  "microphoneMuted (snd (fetchToken rt env s)) = microphoneMuted s"
  "playbackMuted (snd (fetchToken rt env s)) = playbackMuted s"
  "audioContext (snd (fetchToken rt env s)) = audioContext s"
  "inputAnalyser (snd (fetchToken rt env s)) = inputAnalyser s"
  "outputAnalyser (snd (fetchToken rt env s)) = outputAnalyser s"
  "animationFrameId (snd (fetchToken rt env s)) = animationFrameId s"
  "config (snd (fetchToken rt env s)) = config s"
  "conversationId (snd (fetchToken rt env s)) = conversationId s"
  "tracks (snd (fetchToken rt env s)) = tracks s"
  "nextTrack (snd (fetchToken rt env s)) = nextTrack s"
  "connections (snd (fetchToken rt env s)) = connections s"
  "nextConnection (snd (fetchToken rt env s)) = nextConnection s"
  "channels (snd (fetchToken rt env s)) = channels s"
  "nextChannel (snd (fetchToken rt env s)) = nextChannel s"
  "audioElements (snd (fetchToken rt env s)) = audioElements s"
  "nextAudioElement (snd (fetchToken rt env s)) = nextAudioElement s"
  "contextClosed (snd (fetchToken rt env s)) = contextClosed s"
  "nextContext (snd (fetchToken rt env s)) = nextContext s"
  "frameHandle (snd (fetchToken rt env s)) = frameHandle s"
  "frames (snd (fetchToken rt env s)) = frames s"
  "timeouts (snd (fetchToken rt env s)) = timeouts s"
  "callbacks (snd (fetchToken rt env s)) = callbacks s"
  by (simp_all add: fetchToken_def Let_def split: sum.split)

lemma getUserMedia_unchanged [simp]:
  "peerConnection (snd (getUserMedia env s)) = peerConnection s"
  "dataChannel (snd (getUserMedia env s)) = dataChannel s"
  "localStream (snd (getUserMedia env s)) = localStream s"
  "audioElement (snd (getUserMedia env s)) = audioElement s"
  "connectionState (snd (getUserMedia env s)) = connectionState s"
  "microphoneMuted (snd (getUserMedia env s)) = microphoneMuted s"
  "playbackMuted (snd (getUserMedia env s)) = playbackMuted s"
  "audioContext (snd (getUserMedia env s)) = audioContext s"
  "inputAnalyser (snd (getUserMedia env s)) = inputAnalyser s"
  "outputAnalyser (snd (getUserMedia env s)) = outputAnalyser s"
  "animationFrameId (snd (getUserMedia env s)) = animationFrameId s"
  "config (snd (getUserMedia env s)) = config s"
  "conversationId (snd (getUserMedia env s)) = conversationId s"
  "connections (snd (getUserMedia env s)) = connections s"
  "nextConnection (snd (getUserMedia env s)) = nextConnection s"
  "channels (snd (getUserMedia env s)) = channels s"
  "nextChannel (snd (getUserMedia env s)) = nextChannel s"
  "audioElements (snd (getUserMedia env s)) = audioElements s"
  "nextAudioElement (snd (getUserMedia env s)) = nextAudioElement s"
  "contextClosed (snd (getUserMedia env s)) = contextClosed s"
  "nextContext (snd (getUserMedia env s)) = nextContext s"
  "frameHandle (snd (getUserMedia env s)) = frameHandle s"
  "frames (snd (getUserMedia env s)) = frames s"
  "timeouts (snd (getUserMedia env s)) = timeouts s"
  "requests (snd (getUserMedia env s)) = requests s"
  "callbacks (snd (getUserMedia env s)) = callbacks s"
  "console (snd (getUserMedia env s)) = console s"
  by (simp_all add: getUserMedia_def split: sum.split)

lemma analyze_unchanged [simp]:
  "peerConnection (analyze s) = peerConnection s"
  "dataChannel (analyze s) = dataChannel s"
  "localStream (analyze s) = localStream s"
  "audioElement (analyze s) = audioElement s"
  "connectionState (analyze s) = connectionState s"
  "microphoneMuted (analyze s) = microphoneMuted s"
  "playbackMuted (analyze s) = playbackMuted s"
  "audioContext (analyze s) = audioContext s"
  "inputAnalyser (analyze s) = inputAnalyser s"
  "outputAnalyser (analyze s) = outputAnalyser s"
  "config (analyze s) = config s"
  "conversationId (analyze s) = conversationId s"
  "tracks (analyze s) = tracks s"
  "nextTrack (analyze s) = nextTrack s"
  "connections (analyze s) = connections s"
  "nextConnection (analyze s) = nextConnection s"
  "channels (analyze s) = channels s"
  "nextChannel (analyze s) = nextChannel s"
  "audioElements (analyze s) = audioElements s"
  "nextAudioElement (analyze s) = nextAudioElement s"
  "contextClosed (analyze s) = contextClosed s"
  "nextContext (analyze s) = nextContext s"
  "timeouts (analyze s) = timeouts s"
  "requests (analyze s) = requests s"
  "console (analyze s) = console s"
  by (simp_all add: analyze_def call_def requestAnimationFrame_def Let_def)

lemma setupAudioAnalysis_unchanged [simp]:
  "peerConnection (snd (setupAudioAnalysis ctor s)) = peerConnection s"
  "dataChannel (snd (setupAudioAnalysis ctor s)) = dataChannel s"
  "localStream (snd (setupAudioAnalysis ctor s)) = localStream s"
  "audioElement (snd (setupAudioAnalysis ctor s)) = audioElement s"
  "connectionState (snd (setupAudioAnalysis ctor s)) = connectionState s"
  "microphoneMuted (snd (setupAudioAnalysis ctor s)) = microphoneMuted s"
  "playbackMuted (snd (setupAudioAnalysis ctor s)) = playbackMuted s"
  "outputAnalyser (snd (setupAudioAnalysis ctor s)) = outputAnalyser s"
  "config (snd (setupAudioAnalysis ctor s)) = config s"
  "conversationId (snd (setupAudioAnalysis ctor s)) = conversationId s"
  "tracks (snd (setupAudioAnalysis ctor s)) = tracks s"
  "nextTrack (snd (setupAudioAnalysis ctor s)) = nextTrack s"
  "connections (snd (setupAudioAnalysis ctor s)) = connections s"
  "nextConnection (snd (setupAudioAnalysis ctor s)) = nextConnection s"
  "channels (snd (setupAudioAnalysis ctor s)) = channels s"
  "nextChannel (snd (setupAudioAnalysis ctor s)) = nextChannel s"
  "audioElements (snd (setupAudioAnalysis ctor s)) = audioElements s"
  "nextAudioElement (snd (setupAudioAnalysis ctor s)) = nextAudioElement s"
  "timeouts (snd (setupAudioAnalysis ctor s)) = timeouts s"
  "requests (snd (setupAudioAnalysis ctor s)) = requests s"
  "console (snd (setupAudioAnalysis ctor s)) = console s"
  by (simp_all add: setupAudioAnalysis_def startAudioAnalysis_def Let_def split: option.split)

lemma send_offer_unchanged [simp]:
  "peerConnection (snd (send_offer rt env tokenData token p sdp s)) = peerConnection s"
  "dataChannel (snd (send_offer rt env tokenData token p sdp s)) = dataChannel s"
  "localStream (snd (send_offer rt env tokenData token p sdp s)) = localStream s"
  "audioElement (snd (send_offer rt env tokenData token p sdp s)) = audioElement s"
  "connectionState (snd (send_offer rt env tokenData token p sdp s)) = connectionState s"
  "microphoneMuted (snd (send_offer rt env tokenData token p sdp s)) = microphoneMuted s"
  "playbackMuted (snd (send_offer rt env tokenData token p sdp s)) = playbackMuted s"
  "audioContext (snd (send_offer rt env tokenData token p sdp s)) = audioContext s"
  "inputAnalyser (snd (send_offer rt env tokenData token p sdp s)) = inputAnalyser s"
  "outputAnalyser (snd (send_offer rt env tokenData token p sdp s)) = outputAnalyser s"
  "animationFrameId (snd (send_offer rt env tokenData token p sdp s)) = animationFrameId s"
  "config (snd (send_offer rt env tokenData token p sdp s)) = config s"
  "conversationId (snd (send_offer rt env tokenData token p sdp s)) = conversationId s"
  "tracks (snd (send_offer rt env tokenData token p sdp s)) = tracks s"
  "nextTrack (snd (send_offer rt env tokenData token p sdp s)) = nextTrack s"
  "nextConnection (snd (send_offer rt env tokenData token p sdp s)) = nextConnection s"
  "channels (snd (send_offer rt env tokenData token p sdp s)) = channels s"
  "nextChannel (snd (send_offer rt env tokenData token p sdp s)) = nextChannel s"
  "audioElements (snd (send_offer rt env tokenData token p sdp s)) = audioElements s"
  "nextAudioElement (snd (send_offer rt env tokenData token p sdp s)) = nextAudioElement s"
  "contextClosed (snd (send_offer rt env tokenData token p sdp s)) = contextClosed s"
  "nextContext (snd (send_offer rt env tokenData token p sdp s)) = nextContext s"
  "frameHandle (snd (send_offer rt env tokenData token p sdp s)) = frameHandle s"
  "frames (snd (send_offer rt env tokenData token p sdp s)) = frames s"
  "timeouts (snd (send_offer rt env tokenData token p sdp s)) = timeouts s"
  "callbacks (snd (send_offer rt env tokenData token p sdp s)) = callbacks s"
  by (simp_all add: send_offer_def set_description_def Let_def split: sum.split option.split)

lemma negotiate_unchanged [simp]:
  "peerConnection (snd (negotiate rt env tokenData token p s)) = peerConnection s"
  "dataChannel (snd (negotiate rt env tokenData token p s)) = dataChannel s"
  "localStream (snd (negotiate rt env tokenData token p s)) = localStream s"
  "audioElement (snd (negotiate rt env tokenData token p s)) = audioElement s"
  "connectionState (snd (negotiate rt env tokenData token p s)) = connectionState s"
  "microphoneMuted (snd (negotiate rt env tokenData token p s)) = microphoneMuted s"
  "playbackMuted (snd (negotiate rt env tokenData token p s)) = playbackMuted s"
  "audioContext (snd (negotiate rt env tokenData token p s)) = audioContext s"
  "inputAnalyser (snd (negotiate rt env tokenData token p s)) = inputAnalyser s"
  "outputAnalyser (snd (negotiate rt env tokenData token p s)) = outputAnalyser s"
  "animationFrameId (snd (negotiate rt env tokenData token p s)) = animationFrameId s"
  "config (snd (negotiate rt env tokenData token p s)) = config s"
  "conversationId (snd (negotiate rt env tokenData token p s)) = conversationId s"
  "tracks (snd (negotiate rt env tokenData token p s)) = tracks s"
  "nextTrack (snd (negotiate rt env tokenData token p s)) = nextTrack s"
  "nextConnection (snd (negotiate rt env tokenData token p s)) = nextConnection s"
  "channels (snd (negotiate rt env tokenData token p s)) = channels s"
  "nextChannel (snd (negotiate rt env tokenData token p s)) = nextChannel s"
  "audioElements (snd (negotiate rt env tokenData token p s)) = audioElements s"
  "nextAudioElement (snd (negotiate rt env tokenData token p s)) = nextAudioElement s"
  "contextClosed (snd (negotiate rt env tokenData token p s)) = contextClosed s"
  "nextContext (snd (negotiate rt env tokenData token p s)) = nextContext s"
  "frameHandle (snd (negotiate rt env tokenData token p s)) = frameHandle s"
  "frames (snd (negotiate rt env tokenData token p s)) = frames s"
  "timeouts (snd (negotiate rt env tokenData token p s)) = timeouts s"
  "callbacks (snd (negotiate rt env tokenData token p s)) = callbacks s"
  by (simp_all add: negotiate_def set_description_def split: sum.split option.split)

lemma build_transport_unchanged [simp]:
  "localStream (snd (build_transport rt env tokenData token st s)) = localStream s"
  "audioElement (snd (build_transport rt env tokenData token st s)) = audioElement s"
  "connectionState (snd (build_transport rt env tokenData token st s)) = connectionState s"
  "microphoneMuted (snd (build_transport rt env tokenData token st s)) = microphoneMuted s"
  "playbackMuted (snd (build_transport rt env tokenData token st s)) = playbackMuted s"
  "audioContext (snd (build_transport rt env tokenData token st s)) = audioContext s"
  "inputAnalyser (snd (build_transport rt env tokenData token st s)) = inputAnalyser s"
  "outputAnalyser (snd (build_transport rt env tokenData token st s)) = outputAnalyser s"
  "animationFrameId (snd (build_transport rt env tokenData token st s)) = animationFrameId s"
  "config (snd (build_transport rt env tokenData token st s)) = config s"
  "conversationId (snd (build_transport rt env tokenData token st s)) = conversationId s"
  "tracks (snd (build_transport rt env tokenData token st s)) = tracks s"
  "nextTrack (snd (build_transport rt env tokenData token st s)) = nextTrack s"
  "audioElements (snd (build_transport rt env tokenData token st s)) = audioElements s"
  "nextAudioElement (snd (build_transport rt env tokenData token st s)) = nextAudioElement s"
  "contextClosed (snd (build_transport rt env tokenData token st s)) = contextClosed s"
  "nextContext (snd (build_transport rt env tokenData token st s)) = nextContext s"
  "frameHandle (snd (build_transport rt env tokenData token st s)) = frameHandle s"
  "frames (snd (build_transport rt env tokenData token st s)) = frames s"
  "timeouts (snd (build_transport rt env tokenData token st s)) = timeouts s"
  "callbacks (snd (build_transport rt env tokenData token st s)) = callbacks s"
  by (simp_all add: build_transport_def new_PeerConnection_def setupDataChannel_def fold_addTrack Let_def split: option.split)

lemma handleError_unchanged [simp]:
  "peerConnection (handleError e s) = peerConnection s"
  "dataChannel (handleError e s) = dataChannel s"
  "localStream (handleError e s) = localStream s"
  "audioElement (handleError e s) = audioElement s"
  "connectionState (handleError e s) = connectionState s"
  "microphoneMuted (handleError e s) = microphoneMuted s"
  "playbackMuted (handleError e s) = playbackMuted s"
  "audioContext (handleError e s) = audioContext s"
  "inputAnalyser (handleError e s) = inputAnalyser s"
  "outputAnalyser (handleError e s) = outputAnalyser s"
  "animationFrameId (handleError e s) = animationFrameId s"
  "config (handleError e s) = config s"
  "conversationId (handleError e s) = conversationId s"
  "tracks (handleError e s) = tracks s"
  "nextTrack (handleError e s) = nextTrack s"
  "connections (handleError e s) = connections s"
  "nextConnection (handleError e s) = nextConnection s"
  "channels (handleError e s) = channels s"
  "nextChannel (handleError e s) = nextChannel s"
  "audioElements (handleError e s) = audioElements s"
  "nextAudioElement (handleError e s) = nextAudioElement s"
  "contextClosed (handleError e s) = contextClosed s"
  "nextContext (handleError e s) = nextContext s"
  "frameHandle (handleError e s) = frameHandle s"
  "frames (handleError e s) = frames s"
  "timeouts (handleError e s) = timeouts s"
  "requests (handleError e s) = requests s"
  by (simp_all add: handleError_def Let_def)

lemma handleError_callbacks [simp]:
  "callbacks (handleError e s) = callbacks s @ (if onError (config s) then [OnError e] else [])"
  by (simp add: handleError_def Let_def)

lemma getUserMedia_changed [simp]:
  "fst (getUserMedia env s) =
     (case userMedia env of Inl e \<Rightarrow> Inl e | Inr n \<Rightarrow> Inr [nextTrack s ..< nextTrack s + n])"
  "nextTrack (snd (getUserMedia env s)) =
     (case userMedia env of Inl e \<Rightarrow> nextTrack s | Inr n \<Rightarrow> nextTrack s + n)"
  "t < nextTrack s \<Longrightarrow> tracks (snd (getUserMedia env s)) t = tracks s t"
  by (simp_all add: getUserMedia_def split: sum.split)

lemma setupAudioAnalysis_changed [simp]:
  "fst (setupAudioAnalysis ctor s) = ctor"
  "nextContext (snd (setupAudioAnalysis ctor s)) =
     (if ctor = None then Suc (nextContext s) else nextContext s)"
  "audioContext (snd (setupAudioAnalysis ctor s)) =
     (if ctor = None then Some (nextContext s) else audioContext s)"
  "a \<noteq> nextContext s \<Longrightarrow> contextClosed (snd (setupAudioAnalysis ctor s)) a = contextClosed s a"
  by (simp_all add: setupAudioAnalysis_def startAudioAnalysis_def Let_def split: option.split)

lemma analyze_changed [simp]:
  "frames (analyze s) = frames s @ [Suc (frameHandle s)]"
  "animationFrameId (analyze s) = Some (Suc (frameHandle s))"
  by (simp_all add: analyze_def call_def requestAnimationFrame_def Let_def)

lemma setupAudioAnalysis_frames_eq [simp]:
  "frames (snd (setupAudioAnalysis ctor s)) =
     (if ctor = None \<and> localStream s \<noteq> None
          \<and> (onMicrophoneLevel (config s) \<or> onMicrophoneSpectrum (config s))
      then frames s @ [Suc (frameHandle s)] else frames s)"
  "animationFrameId (snd (setupAudioAnalysis ctor s)) =
     (if ctor = None \<and> localStream s \<noteq> None
          \<and> (onMicrophoneLevel (config s) \<or> onMicrophoneSpectrum (config s))
      then Some (Suc (frameHandle s)) else animationFrameId s)"
  by (auto simp add: setupAudioAnalysis_def startAudioAnalysis_def Let_def split: option.split)

lemma negotiate_connections [simp]:
  "pc_closed (connections (snd (negotiate rt env tokenData token p s)) q) = pc_closed (connections s q)"
  "pc_channels (connections (snd (negotiate rt env tokenData token p s)) q) = pc_channels (connections s q)"
  "senders (connections (snd (negotiate rt env tokenData token p s)) q) = senders (connections s q)"
  "q \<noteq> p \<Longrightarrow> connections (snd (negotiate rt env tokenData token p s)) q = connections s q"
  by (simp_all add: negotiate_def send_offer_def set_description_def Let_def
      split: sum.split option.split)


lemma build_transport_changed [simp]:
  "nextConnection (snd (build_transport rt env tokenData token st s)) =
     (if new_RTCPeerConnection env = None then Suc (nextConnection s) else nextConnection s)"
  "peerConnection (snd (build_transport rt env tokenData token st s)) =
     (if new_RTCPeerConnection env = None then Some (nextConnection s) else peerConnection s)"
  "nextChannel (snd (build_transport rt env tokenData token st s)) =
     (if new_RTCPeerConnection env = None then Suc (nextChannel s) else nextChannel s)"
  "dataChannel (snd (build_transport rt env tokenData token st s)) =
     (if new_RTCPeerConnection env = None then Some (nextChannel s) else dataChannel s)"
  "c \<noteq> nextChannel s \<Longrightarrow>
     channels (snd (build_transport rt env tokenData token st s)) c = channels s c"
  "q \<noteq> nextConnection s \<Longrightarrow>
     connections (snd (build_transport rt env tokenData token st s)) q = connections s q"
  "new_RTCPeerConnection env = None \<Longrightarrow> q = nextConnection s \<Longrightarrow>
     pc_closed (connections (snd (build_transport rt env tokenData token st s)) q) = False"
  "new_RTCPeerConnection env = None \<Longrightarrow> q = nextConnection s \<Longrightarrow>
     pc_channels (connections (snd (build_transport rt env tokenData token st s)) q) =
       [nextChannel s]"
  by (simp_all add: build_transport_def new_PeerConnection_def setupDataChannel_def fold_addTrack Let_def
      split: option.split)

lemma connect_try_unchanged [simp]:
  "audioElement (snd (connect_try rt env s)) = audioElement s"
  "connectionState (snd (connect_try rt env s)) = connectionState s"
  "microphoneMuted (snd (connect_try rt env s)) = microphoneMuted s"
  "playbackMuted (snd (connect_try rt env s)) = playbackMuted s"
  "outputAnalyser (snd (connect_try rt env s)) = outputAnalyser s"
  "config (snd (connect_try rt env s)) = config s"
  "conversationId (snd (connect_try rt env s)) = conversationId s"
  "audioElements (snd (connect_try rt env s)) = audioElements s"
  "nextAudioElement (snd (connect_try rt env s)) = nextAudioElement s"
  "timeouts (snd (connect_try rt env s)) = timeouts s"
  by (simp_all add: connect_try_def case_prod_beta Let_def split: sum.split option.split)









subsection \<open>The inbound messages\<close>

lemma srcObject_reassigned:
  "srcObject r = Some src \<Longrightarrow>
     r\<lparr>paused := True, srcObject := Some src, srcObject_assigned := xs\<rparr> =
     r\<lparr>paused := True, srcObject_assigned := xs\<rparr>"
  by (cases r) simp

lemma stopPlayback_eq:
  "stopPlayback s =
     (case audioElement s of
        None \<Rightarrow> s
      | Some a \<Rightarrow>
          s\<lparr>audioElements := (audioElements s)(a := (audioElements s a)
              \<lparr>paused := True,
               srcObject_assigned := srcObject_assigned (audioElements s a) @
                 (case srcObject (audioElements s a) of
                    None \<Rightarrow> []
                  | Some src \<Rightarrow> [None, Some src])\<rparr>)\<rparr>)"
  by (simp add: stopPlayback_def audio_pause_def audio_set_srcObject_def Let_def srcObject_reassigned
      split: option.splits)

lemma interruption_dispatch:
  assumes "get_prop message ''type'' = Inr (JStr ty)"
    and "ty = ''response.cancelled'' \<or> ty = ''response.interrupted''"
  shows "handleRealtimeMessage rt message s = (None, stopPlayback s)"
proof -
  from assms(2) show ?thesis
  proof
    assume "ty = ''response.cancelled''"
    with assms(1) have "get_prop message ''type'' = Inr (JStr ''response.cancelled'')" by simp
    then show ?thesis by (simp add: handleRealtimeMessage_def)
  next
    assume "ty = ''response.interrupted''"
    with assms(1) have "get_prop message ''type'' = Inr (JStr ''response.interrupted'')" by simp
    then show ?thesis by (simp add: handleRealtimeMessage_def)
  qed
qed


section \<open>The examples, evaluated\<close>

lemmas connect_defs = connect_def connect_try_def fetchToken_def token_of_def getUserMedia_def
  build_transport_def new_PeerConnection_def setupDataChannel_def negotiate_def send_offer_def
  set_description_def apiUrl_def js_or_def updateConnectionState_def truthy_string_def
  fold_addTrack addTrack_def

lemmas example_defs = example_runtime_def example_environment_def
  example_config_def default_config_def new_client_def

lemma example_connecting_fields:
  "fst (connect example_runtime example_environment None (new_client example_config)) = None"
  "connectionState example_connecting = Connecting"
  "peerConnection example_connecting = Some 0"
  "dataChannel example_connecting = Some 0"
  "readyState (channels example_connecting 0) = ChConnecting"
  "sent (channels example_connecting 0) = []"
  "localStream example_connecting = Some [0]"
  "audioElement example_connecting = None"
  "audioContext example_connecting = None"
  "config example_connecting = example_config"
  "playbackMuted example_connecting = False"
  "nextConnection example_connecting = 1"
  "nextTrack example_connecting = 1"
  "nextChannel example_connecting = 1"
  "nextAudioElement example_connecting = 0"
  by (simp_all add: example_connecting_def example_defs connect_defs Let_def)

lemma example_session_fields:
  "connectionState example_session = Connected"
  "peerConnection example_session = Some 0"
  "dataChannel example_session = Some 0"
  "readyState (channels example_session 0) = ChOpen"
  "sent (channels example_session 0) = []"
  "audioElement example_session = Some 0"
  "srcObject (audioElements example_session 0) = Some [7]"
  "srcObject_assigned (audioElements example_session 0) = [Some [7]]"
  "config example_session = example_config"
  "nextConnection example_session = 1"
  "nextTrack example_session = 1"
  "nextChannel example_session = 1"
  by (simp_all add: example_session_def ontrack_def open_event_def onopen_def ice_event_def
      oniceconnectionstatechange_def new_Audio_def audio_set_srcObject_def audio_set_muted_def
      updateConnectionState_def truthy_string_def example_connecting_fields Let_def
      example_config_def default_config_def)






section \<open>The claims\<close>










text \<open>
  C4. \<^verbatim>\<open>disconnect()\<close> is total and idempotent. It is a function of the state with no
  exception among its results; from every state it ends in \<open>Disconnected\<close>; and a second
  call leaves every field of the client and every browser object as the first call left
  them: all it does is tell the state callback, if one is configured, once more.
\<close>

theorem disconnect_idempotent_total:
  "connectionState (disconnect s) = Disconnected \<and>
   disconnect (disconnect s) =
     (disconnect s)\<lparr>callbacks := callbacks (disconnect s) @
        (if onConnectionStateChange (config s) then [OnConnectionStateChange Disconnected] else [])\<rparr>"
proof -
  have "disconnect (disconnect s) = updateConnectionState Disconnected (disconnect s)"
    by (rule disconnect_released) (simp_all add: disconnect_refs)
  then show ?thesis
    by (simp add: updateConnectionState_def disconnect_refs Let_def)
qed

theorem disconnect_idempotent_total_witness:
  "connectionState (disconnect example_session) = Disconnected \<and>
   disconnect (disconnect example_session) =
     (disconnect example_session)\<lparr>callbacks := callbacks (disconnect example_session) @
        [OnConnectionStateChange Disconnected]\<rparr>"
  using disconnect_idempotent_total [of example_session]
  by (simp add: example_session_fields example_config_def default_config_def)

text \<open>
  C5. A \<^verbatim>\<open>response.cancelled\<close> or \<^verbatim>\<open>response.interrupted\<close> message raises nothing and
  changes the audio element only: the element is paused and, when it has a media source,
  \<^verbatim>\<open>null\<close> and then the same source are assigned to it. The connection state, the
  channel, the peer connection and every other field stay as they were; without an audio
  element nothing changes at all.
\<close>

theorem interruption_only_restarts_playback:
  assumes "get_prop message ''type'' = Inr (JStr ty)"
    and "ty = ''response.cancelled'' \<or> ty = ''response.interrupted''"
  shows "handleRealtimeMessage rt message s =
           (None,
            case audioElement s of
              None \<Rightarrow> s
            | Some a \<Rightarrow>
                s\<lparr>audioElements := (audioElements s)(a := (audioElements s a)
                    \<lparr>paused := True,
                     srcObject_assigned := srcObject_assigned (audioElements s a) @
                       (case srcObject (audioElements s a) of
                          None \<Rightarrow> []
                        | Some src \<Rightarrow> [None, Some src])\<rparr>)\<rparr>)"
  unfolding interruption_dispatch [OF assms] stopPlayback_eq [of s] ..

theorem interruption_only_restarts_playback_witness:
  "handleRealtimeMessage example_runtime (JObj [(''type'', JStr ''response.interrupted'')])
     example_session =
   (None,
    example_session\<lparr>audioElements := (audioElements example_session)
      (0 := (audioElements example_session 0)
         \<lparr>paused := True, srcObject_assigned := [Some [7], None, Some [7]]\<rparr>)\<rparr>)"
  using interruption_only_restarts_playback
    [of "JObj [(''type'', JStr ''response.interrupted'')]" "''response.interrupted''"
        example_runtime example_session]
  by (simp add: example_session_fields)



text \<open>
  C7. While the data channel is missing or not open, \<^verbatim>\<open>sendText\<close> and
  \<^verbatim>\<open>sendToolResult\<close> throw the error \<^verbatim>\<open>Data channel not open\<close> and leave the state as
  it was: nothing is sent, no callback is called.
\<close>

theorem send_without_open_channel_fails:
  assumes "\<forall>c. dataChannel s = Some c \<longrightarrow> readyState (channels s c) \<noteq> ChOpen"
  shows "sendText rt t s = (Some (JSError ''Data channel not open''), s) \<and>
         sendToolResult rt callId result s = (Some (JSError ''Data channel not open''), s)"
  using assms
  by (simp add: sendText_def sendToolResult_def channel_not_open_def split: option.splits)

theorem send_without_open_channel_fails_witness:
  "sendText example_runtime ''hello'' example_connecting =
     (Some (JSError ''Data channel not open''), example_connecting) \<and>
   sendToolResult example_runtime ''call_1'' (JObj [(''ok'', JBool True)]) example_connecting =
     (Some (JSError ''Data channel not open''), example_connecting)"
  using send_without_open_channel_fails
    [of example_connecting example_runtime "''hello''" "''call_1''" "JObj [(''ok'', JBool True)]"]
  by (simp add: example_connecting_fields)

text \<open>
  C8. A \<^verbatim>\<open>response.function_call_arguments.done\<close> message with a call id and a name
  (both truthy), handled with a tool-call callback configured, raises nothing and calls
  that callback once, with the call id, the name and the parsed arguments; the
  arguments are the empty object when the field is missing or falsy and when
  \<^verbatim>\<open>JSON.parse\<close> throws, in which case the failure goes to the console. Nothing else
  changes.
\<close>

theorem tool_call_emitted_once:
  assumes "get_prop message ''type'' = Inr (JStr ''response.function_call_arguments.done'')"
    and "onToolCall (config s)"
    and "truthy (opt_prop message ''call_id'')"
    and "truthy (opt_prop message ''name'')"
  shows "handleRealtimeMessage rt message s =
           (None,
            s\<lparr>callbacks := callbacks s @
                 [OnToolCall (opt_prop message ''call_id'') (opt_prop message ''name'')
                    (if truthy (opt_prop message ''arguments'')
                     then (case JSON_parse rt (opt_prop message ''arguments'') of
                             Inr args \<Rightarrow> args
                           | Inl e \<Rightarrow> JObj [])
                     else JObj [])],
              console := console s @
                 (if truthy (opt_prop message ''arguments'')
                  then (case JSON_parse rt (opt_prop message ''arguments'') of
                          Inr args \<Rightarrow> []
                        | Inl e \<Rightarrow> [ConsoleError [Txt ''Failed to parse tool arguments:'', Exn e]])
                  else [])\<rparr>)"
  using assms
  by (simp add: handleRealtimeMessage_def function_call_arguments_done_def call_def
      split: sum.splits)

theorem tool_call_emitted_once_witness:
  "handleRealtimeMessage example_runtime
     (JObj [(''type'', JStr ''response.function_call_arguments.done''),
            (''call_id'', JStr ''call_1''), (''name'', JStr ''get_weather''),
            (''arguments'', JStr ''{bad'')])
     example_session =
   (None,
    example_session\<lparr>callbacks := callbacks example_session @
        [OnToolCall (JStr ''call_1'') (JStr ''get_weather'') (JObj [])],
      console := console example_session @
        [ConsoleError [Txt ''Failed to parse tool arguments:'',
                       Exn (JSSyntaxError ''Unexpected token'')]]\<rparr>)"
  using tool_call_emitted_once
    [of "JObj [(''type'', JStr ''response.function_call_arguments.done''),
               (''call_id'', JStr ''call_1''), (''name'', JStr ''get_weather''),
               (''arguments'', JStr ''{bad'')]" example_session example_runtime]
  by (simp add: example_session_fields example_runtime_def example_config_def default_config_def)

text \<open>
  C9. A message whose \<^verbatim>\<open>type\<close> is none of the strings the \<^verbatim>\<open>switch\<close> has a case for
  (a string outside the vocabulary, or no string at all) is ignored: no exception, and
  the state, with its callbacks and console, is the one before.
\<close>

theorem unknown_type_is_ignored:
  assumes "get_prop message ''type'' = Inr ty"
    and "ty \<notin> JStr ` set vocabulary"
  shows "handleRealtimeMessage rt message s = (None, s)"
  using assms
  by (simp add: handleRealtimeMessage_def vocabulary_def image_iff)

theorem unknown_type_is_ignored_witness:
  "handleRealtimeMessage example_runtime (JObj [(''type'', JStr ''rate_limits.updated'')])
     example_session = (None, example_session)"
  using unknown_type_is_ignored
    [of "JObj [(''type'', JStr ''rate_limits.updated'')]" "JStr ''rate_limits.updated''"
        example_runtime example_session]
  by (simp add: vocabulary_def)

text \<open>
  C10. When \<^verbatim>\<open>JSON.parse\<close> throws on the payload of a data-channel message, the
  \<^verbatim>\<open>onmessage\<close> handler returns with the failure written to the console and nothing
  else changed: no callback, no exception, the same connection state and channel.
\<close>

theorem unparseable_payload_is_ignored:
  assumes "JSON_parse rt data = Inl e"
  shows "onmessage rt data s =
           s\<lparr>console := console s @ [ConsoleError [Txt ''Failed to parse message:'', Exn e]]\<rparr>"
  using assms by (simp add: onmessage_def)

theorem unparseable_payload_is_ignored_witness:
  "onmessage example_runtime (JStr ''not json'') example_session =
     example_session\<lparr>console := console example_session @
       [ConsoleError [Txt ''Failed to parse message:'', Exn (JSSyntaxError ''Unexpected token'')]]\<rparr>"
  using unparseable_payload_is_ignored
    [of example_runtime "JStr ''not json''" "JSSyntaxError ''Unexpected token''" example_session]
  by (simp add: example_runtime_def)

end
